theory Spec2Isabelle
  imports
    Main
    "HOL-Library.Word"
    "HOL-Library.Signed_Division"
    "HOL-Library.Multiset"
    "HOL-Library.Sublist"
    "HOL-Library.AList"
begin

section \<open>Go integers\<close>

text \<open>
  Go's \<^verbatim>\<open>int\<close> is taken at its 64-bit width: a two's-complement word whose
  addition wraps and whose comparisons are signed (\<open><s\<close> and \<open>\<le>s\<close>).
  The quotient \<^verbatim>\<open>x / y\<close> truncates towards zero (\<open>sdiv\<close> on \<open>int\<close>),
  wraps on the single overflowing case (most negative value over \<open>-1\<close>), and
  panics when \<open>y\<close> is zero. The conversion \<^verbatim>\<open>int(v)\<close> of an
  \<^verbatim>\<open>int64\<close> is the identity at this width.
  Pointer-typed fields of the SDK structures (\<^verbatim>\<open>*string\<close>, \<^verbatim>\<open>*int64\<close>)
  are modelled by the values they point to; a nil field is outside the model.
\<close>

type_synonym go_int = "64 word"

datatype panic = DivideByZero | IndexOutOfRange

definition go_quo :: "go_int \<Rightarrow> go_int \<Rightarrow> go_int" where
  "go_quo x y = word_of_int (sint x sdiv sint y)"

definition go_div :: "go_int \<Rightarrow> go_int \<Rightarrow> panic + go_int" where
  "go_div x y = (if y = 0 then Inl DivideByZero else Inr (go_quo x y))"

section \<open>Capacity calculator\<close>

record Resource =
  Resource_Name :: string
  IntegerValue :: go_int

text \<open>
  The \<^verbatim>\<open>for ... range resources\<close> loop of \<^verbatim>\<open>ContainersPossible\<close>, with the two
  accumulators \<^verbatim>\<open>byCPU\<close> and \<^verbatim>\<open>byMemory\<close> passed along.
\<close>

fun ContainersPossible_loop ::
  "go_int \<Rightarrow> go_int \<Rightarrow> Resource list \<Rightarrow> go_int \<Rightarrow> go_int \<Rightarrow> panic + (go_int \<times> go_int)" where
  "ContainersPossible_loop cpu memory [] byCPU byMemory = Inr (byCPU, byMemory)"
| "ContainersPossible_loop cpu memory (resource # resources) byCPU byMemory =
     (if Resource_Name resource = ''CPU'' then
        (case go_div (IntegerValue resource) cpu of
           Inl p \<Rightarrow> Inl p
         | Inr q \<Rightarrow> ContainersPossible_loop cpu memory resources (byCPU + q) byMemory)
      else if Resource_Name resource = ''MEMORY'' then
        (case go_div (IntegerValue resource) memory of
           Inl p \<Rightarrow> Inl p
         | Inr q \<Rightarrow> ContainersPossible_loop cpu memory resources byCPU (byMemory + q))
      else ContainersPossible_loop cpu memory resources byCPU byMemory)"

definition ContainersPossible :: "go_int \<Rightarrow> go_int \<Rightarrow> Resource list \<Rightarrow> panic + go_int" where
  "ContainersPossible cpu memory resources =
     (case ContainersPossible_loop cpu memory resources 0 0 of
        Inl p \<Rightarrow> Inl p
      | Inr (byCPU, byMemory) \<Rightarrow>
          Inr (if byCPU <s byMemory then 0 + byCPU else 0 + byMemory))"

text \<open>
  The specification's reading of the same function: the capacity by one resource is the
  sum of the quotients over the entries of that name, and the result is the smaller of
  the two capacities.
\<close>

definition capacity_by :: "string \<Rightarrow> go_int \<Rightarrow> Resource list \<Rightarrow> go_int" where
  "capacity_by name unit resources =
     sum_list (map (\<lambda>r. go_quo (IntegerValue r) unit)
       (filter (\<lambda>r. Resource_Name r = name) resources))"

definition go_min :: "go_int \<Rightarrow> go_int \<Rightarrow> go_int" where
  "go_min a b = (if a \<le>s b then a else b)"

text \<open>The same capacity over the mathematical integers, with flooring division.\<close>

definition capacity_int :: "string \<Rightarrow> go_int \<Rightarrow> Resource list \<Rightarrow> int" where
  "capacity_int name unit resources =
     sum_list (map (\<lambda>r. sint (IntegerValue r) div sint unit)
       (filter (\<lambda>r. Resource_Name r = name) resources))"

definition nonneg_resources :: "Resource list \<Rightarrow> bool" where
  "nonneg_resources resources = list_all (\<lambda>r. 0 \<le>s IntegerValue r) resources"

section \<open>Decimal parsing (\<^verbatim>\<open>strconv.Atoi\<close>)\<close>

text \<open>
  \<^verbatim>\<open>strconv.Atoi\<close> belongs to Go's standard library. It is modelled as its
  documentation and source describe it: \<^verbatim>\<open>Atoi(s)\<close> is \<^verbatim>\<open>ParseInt(s, 10, 0)\<close>
  converted to \<^verbatim>\<open>int\<close> (the short-string fast path computes the same pair).
  An empty string, a lone sign or a non-digit gives \<open>0\<close> and a syntax error; a digit
  string outside the 64-bit range gives the nearest bound and a range error.
  \<^verbatim>\<open>ParseUint\<close> accumulates in a \<^verbatim>\<open>uint64\<close>; the model accumulates in \<open>nat\<close> and
  makes the two overflow tests explicit (\<open>n \<ge> cutoff\<close> before the multiplication,
  \<open>n1 > maxVal\<close> after the addition).
\<close>

datatype num_error = ErrSyntax | ErrRange

definition is_digit :: "char \<Rightarrow> bool" where
  "is_digit c = (48 \<le> (of_char c :: nat) \<and> (of_char c :: nat) \<le> 57)"

definition digit_val :: "char \<Rightarrow> nat" where
  "digit_val c = of_char c - 48"

definition maxUint64 :: nat where
  "maxUint64 = 18446744073709551615"

fun ParseUint_loop :: "nat \<Rightarrow> string \<Rightarrow> nat \<times> num_error option" where
  "ParseUint_loop n [] = (n, None)"
| "ParseUint_loop n (c # cs) =
     (if \<not> is_digit c then (0, Some ErrSyntax)
      else if n \<ge> maxUint64 div 10 + 1 then (maxUint64, Some ErrRange)
      else if n * 10 + digit_val c > maxUint64 then (maxUint64, Some ErrRange)
      else ParseUint_loop (n * 10 + digit_val c) cs)"

definition ParseUint :: "string \<Rightarrow> nat \<times> num_error option" where
  "ParseUint s = (if s = [] then (0, Some ErrSyntax) else ParseUint_loop 0 s)"

definition ParseInt :: "string \<Rightarrow> go_int \<times> num_error option" where
  "ParseInt s =
     (if s = [] then (0, Some ErrSyntax)
      else
        (let neg = (hd s = CHR ''-'');
             s1 = (if hd s = CHR ''+'' \<or> hd s = CHR ''-'' then tl s else s);
             (un, err) = ParseUint s1
         in if err = Some ErrSyntax then (0, Some ErrSyntax)
            else if \<not> neg \<and> un \<ge> 9223372036854775808
              then (9223372036854775807, Some ErrRange)
            else if neg \<and> un > 9223372036854775808
              then (- 9223372036854775808, Some ErrRange)
            else (if neg then - word_of_nat un else word_of_nat un, None)))"

definition Atoi :: "string \<Rightarrow> go_int \<times> num_error option" where
  "Atoi s = ParseInt s"

section \<open>The provider interface\<close>

text \<open>
  The ECS client is an interface value of the \<^verbatim>\<open>Snitcher\<close>; its answers are inputs
  of the program. A plain call answers with \<open>None\<close> for a non-nil \<^verbatim>\<open>error\<close>.
  A paged call is given by the pages the SDK hands to the callback for as long as the
  callback asks for more, and by whether the iteration ends with an error.
  \<^verbatim>\<open>DescribeTasks\<close> is indexed by the number of the batch being described, so that
  equal batches may be answered differently.
\<close>

record Task =
  Task_Cpu :: string
  Task_Memory :: string

record Attribute =
  Attribute_Name :: string
  Attribute_Value :: string

record ContainerInstance =
  Attributes :: "Attribute list"
  RegisteredResources :: "Resource list"
  RemainingResources :: "Resource list"

record ECSAPI =
  ECS_ListClustersPages :: "string list list \<times> bool"
  ECS_ListTasksPages :: "string \<Rightarrow> string list list \<times> bool"
  ECS_DescribeTasks :: "nat \<Rightarrow> string \<Rightarrow> string list \<Rightarrow> Task list option"
  ECS_ListContainerInstances :: "string \<Rightarrow> string \<Rightarrow> string list option"
  ECS_DescribeContainerInstances :: "string \<Rightarrow> string list \<Rightarrow> ContainerInstance list option"

datatype event =
    ListTasksPagesCall string
  | DescribeTasksCall string "string list"
  | ListContainerInstancesCall string string
  | DescribeContainerInstancesCall string "string list"
  | ContainersPossibleCall go_int go_int "Resource list"

text \<open>
  Both pagers answer \<^verbatim>\<open>len(page) > 0\<close>: the pages seen are those up to and including
  the first empty one.
\<close>

fun pages_seen :: "'a list list \<Rightarrow> 'a list list" where
  "pages_seen [] = []"
| "pages_seen (page # pages) = (if length page > 0 then page # pages_seen pages else [page])"

section \<open>Task footprint\<close>

definition DiscoverTasks :: "ECSAPI \<Rightarrow> string \<Rightarrow> string list list" where
  "DiscoverTasks sn cluster = pages_seen (fst (ECS_ListTasksPages sn cluster))"

fun MeasureResources_loop :: "Task list \<Rightarrow> go_int \<Rightarrow> go_int \<Rightarrow> go_int \<times> go_int" where
  "MeasureResources_loop [] cpu memory = (cpu, memory)"
| "MeasureResources_loop (task # tasks) cpu memory =
     (let taskCPU = fst (Atoi (Task_Cpu task));
          taskMemory = fst (Atoi (Task_Memory task))
      in MeasureResources_loop tasks
           (if cpu <s taskCPU then taskCPU else cpu)
           (if memory <s taskMemory then taskMemory else memory))"

definition MeasureResources :: "ECSAPI \<Rightarrow> nat \<Rightarrow> string \<Rightarrow> string list \<Rightarrow> go_int \<times> go_int" where
  "MeasureResources sn i cluster tasks =
     (case ECS_DescribeTasks sn i cluster tasks of
        None \<Rightarrow> (0, 0)
      | Some described \<Rightarrow> MeasureResources_loop described 0 0)"

text \<open>
  The first loop of \<^verbatim>\<open>MeasureCluster\<close>, over the batches received from
  \<^verbatim>\<open>DiscoverTasks\<close>; \<open>i\<close> counts the batches and \<open>tr\<close> records the provider calls.
\<close>

fun MeasureCluster_loop ::
  "ECSAPI \<Rightarrow> string \<Rightarrow> nat \<Rightarrow> string list list \<Rightarrow> go_int \<Rightarrow> go_int \<Rightarrow> event list
     \<Rightarrow> (go_int \<times> go_int) \<times> event list" where
  "MeasureCluster_loop sn cluster i [] cpu memory tr = ((cpu, memory), tr)"
| "MeasureCluster_loop sn cluster i (tasks # batches) cpu memory tr =
     (let (cohortCPU, cohortMemory) = MeasureResources sn i cluster tasks
      in MeasureCluster_loop sn cluster (Suc i) batches
           (if cpu <s cohortCPU then cohortCPU else cpu)
           (if memory <s cohortMemory then cohortMemory else memory)
           (tr @ [DescribeTasksCall cluster tasks]))"

text \<open>
  The footprint phase of \<^verbatim>\<open>MeasureCluster\<close>: the loop run on the stream of
  \<^verbatim>\<open>DiscoverTasks\<close>, from \<^verbatim>\<open>var cpu, memory int\<close>, after the one paged call.
\<close>

definition task_footprint :: "ECSAPI \<Rightarrow> string \<Rightarrow> (go_int \<times> go_int) \<times> event list" where
  "task_footprint sn cluster =
     MeasureCluster_loop sn cluster 0 (DiscoverTasks sn cluster) 0 0 [ListTasksPagesCall cluster]"

section \<open>Cluster resource ledger\<close>

text \<open>
  A Go map value is a reference. \<^verbatim>\<open>NewClusterResources\<close> stores the same four maps
  under the fields \<^verbatim>\<open>CPU\<close>, \<^verbatim>\<open>Memory\<close>, \<^verbatim>\<open>Registered\<close>, \<^verbatim>\<open>Remaining\<close> and
  as the values of \<^verbatim>\<open>Resources\<close>, so a write through a field is read back through
  \<^verbatim>\<open>Resources\<close>. The model keeps the maps in a heap of cells and the references
  in the structure. The contents of a map is an association list with distinct keys;
  \<open>m[k]\<close> of an absent key reads the zero value.
\<close>

type_synonym go_map = "(string \<times> go_int) list"

record heap =
  cells :: "nat \<Rightarrow> go_map"
  fresh :: nat

definition make_map :: "heap \<Rightarrow> nat \<times> heap" where
  "make_map h = (fresh h, \<lparr>cells = (cells h)(fresh h := []), fresh = Suc (fresh h)\<rparr>)"

definition map_index :: "go_map \<Rightarrow> string \<Rightarrow> go_int" where
  "map_index m k = (case map_of m k of None \<Rightarrow> 0 | Some v \<Rightarrow> v)"

definition map_assign :: "nat \<Rightarrow> string \<Rightarrow> go_int \<Rightarrow> heap \<Rightarrow> heap" where
  "map_assign r k v h = h\<lparr>cells := (cells h)(r := AList.update k v (cells h r))\<rparr>"

definition map_add_assign :: "nat \<Rightarrow> string \<Rightarrow> go_int \<Rightarrow> heap \<Rightarrow> heap" where
  "map_add_assign r k v h = map_assign r k (map_index (cells h r) k + v) h"

record ClusterResources =
  Cluster :: string
  Resources :: "(string \<times> nat) list"
  CPU :: nat
  Memory :: nat
  Registered :: nat
  Remaining :: nat

definition NewClusterResources :: "string \<Rightarrow> heap \<Rightarrow> ClusterResources \<times> heap" where
  "NewClusterResources cluster h =
     (let (cpu, h1) = make_map h;
          (memory, h2) = make_map h1;
          (registered, h3) = make_map h2;
          (remaining, h4) = make_map h3;
          cr = \<lparr>Cluster = cluster, Resources = [], CPU = cpu, Memory = memory,
                Registered = registered, Remaining = remaining\<rparr>;
          cr1 = cr\<lparr>Resources := AList.update ''LowestCommonMultipleCPU'' (CPU cr) (Resources cr)\<rparr>;
          cr2 = cr1\<lparr>Resources := AList.update ''LowestCommonMultipleMemory'' (Memory cr1) (Resources cr1)\<rparr>;
          cr3 = cr2\<lparr>Resources := AList.update ''RegisteredSchedulable'' (Registered cr2) (Resources cr2)\<rparr>;
          cr4 = cr3\<lparr>Resources := AList.update ''RemainingSchedulable'' (Remaining cr3) (Resources cr3)\<rparr>
      in (cr4, h4))"

definition empty_heap :: heap where
  "empty_heap = \<lparr>cells = (\<lambda>r. []), fresh = 0\<rparr>"

record Dimension =
  Dimension_Name :: string
  Dimension_Value :: string

text \<open>
  \<open>Value\<close> holds the \<^verbatim>\<open>int\<close> that the source passes to \<^verbatim>\<open>float64\<close>; the
  conversion itself is not modelled. \<open>Timestamp\<close> is a clock reading.
\<close>

record MetricDatum =
  MetricName :: string
  Dimensions :: "Dimension list"
  Timestamp :: nat
  Value :: go_int
  Unit :: string

text \<open>
  \<^verbatim>\<open>range\<close> over a map visits every entry once, in an order Go leaves open. The order
  is an input: \<open>outer_order\<close> arranges the entries of \<^verbatim>\<open>Resources\<close>, and
  \<open>inner_order\<close> those of the map stored under a metric name. \<open>range_permutes\<close> says
  that both only rearrange.
\<close>

record range_order =
  outer_order :: "(string \<times> nat) list \<Rightarrow> (string \<times> nat) list"
  inner_order :: "string \<Rightarrow> go_map \<Rightarrow> go_map"

definition range_permutes :: "range_order \<Rightarrow> bool" where
  "range_permutes ro \<longleftrightarrow>
     (\<forall>xs. mset (outer_order ro xs) = mset xs) \<and> (\<forall>n xs. mset (inner_order ro n xs) = mset xs)"

definition source_order :: range_order where
  "source_order = \<lparr>outer_order = (\<lambda>xs. xs), inner_order = (\<lambda>n xs. xs)\<rparr>"

text \<open>
  The clock is the sequence of the readings that successive calls of \<^verbatim>\<open>time.Now\<close>
  return; a call takes the next reading.
\<close>

definition time_Now :: "(nat \<Rightarrow> nat) \<Rightarrow> nat \<Rightarrow> nat \<times> nat" where
  "time_Now clock n = (clock n, Suc n)"

definition ToMetricData ::
  "range_order \<Rightarrow> (nat \<Rightarrow> nat) \<Rightarrow> nat \<Rightarrow> ClusterResources \<Rightarrow> heap \<Rightarrow> MetricDatum list \<times> nat" where
  "ToMetricData ro clock n cr h =
     (let clusterDimension = \<lparr>Dimension_Name = ''ClusterName'', Dimension_Value = Cluster cr\<rparr>;
          (timestamp, n1) = time_Now clock n;
          metricData =
            concat (map (\<lambda>(metricName, metricResources).
              map (\<lambda>(instanceType, value).
                \<lparr>MetricName = metricName,
                 Dimensions = [clusterDimension,
                   \<lparr>Dimension_Name = ''InstanceType'', Dimension_Value = instanceType\<rparr>],
                 Timestamp = timestamp,
                 Value = value,
                 Unit = ''Count''\<rparr>)
                (inner_order ro metricName (cells h metricResources)))
              (outer_order ro (Resources cr)))
      in (metricData, n1))"

section \<open>Capacity by instance type\<close>

fun getInstanceType :: "Attribute list \<Rightarrow> string" where
  "getInstanceType [] = []"
| "getInstanceType (attr # attributes) =
     (if Attribute_Name attr = ''ecs.instance-type'' then Attribute_Value attr
      else getInstanceType attributes)"

definition ListContainerInstances :: "ECSAPI \<Rightarrow> string \<Rightarrow> string list" where
  "ListContainerInstances sn cluster =
     (case ECS_ListContainerInstances sn cluster ''ACTIVE'' of None \<Rightarrow> [] | Some arns \<Rightarrow> arns)"

definition DescribeContainerInstances :: "ECSAPI \<Rightarrow> string \<Rightarrow> string list \<Rightarrow> ContainerInstance list" where
  "DescribeContainerInstances sn cluster instances =
     (case ECS_DescribeContainerInstances sn cluster instances of None \<Rightarrow> [] | Some cs \<Rightarrow> cs)"

text \<open>
  The four map statements of the loop body of \<^verbatim>\<open>DescribeResourcesByInstanceType\<close>,
  once both counts are known.
\<close>

definition record_instance ::
  "ClusterResources \<Rightarrow> string \<Rightarrow> go_int \<Rightarrow> go_int \<Rightarrow> go_int \<Rightarrow> go_int \<Rightarrow> heap \<Rightarrow> heap" where
  "record_instance cr instanceType cpu memory registered remaining h =
     map_add_assign (Remaining cr) instanceType remaining
       (map_add_assign (Registered cr) instanceType registered
         (map_assign (Memory cr) instanceType memory
           (map_assign (CPU cr) instanceType cpu h)))"

text \<open>
  The loop itself, statement by statement: a panic of \<^verbatim>\<open>ContainersPossible\<close> ends it.
  Every invocation of \<^verbatim>\<open>ContainersPossible\<close> is recorded with its arguments.
\<close>

fun DescribeResourcesByInstanceType_loop ::
  "ClusterResources \<Rightarrow> go_int \<Rightarrow> go_int \<Rightarrow> ContainerInstance list \<Rightarrow> heap \<Rightarrow> event list
     \<Rightarrow> (panic + heap) \<times> event list" where
  "DescribeResourcesByInstanceType_loop cr cpu memory [] h tr = (Inr h, tr)"
| "DescribeResourcesByInstanceType_loop cr cpu memory (container # containers) h tr =
     (let instanceType = getInstanceType (Attributes container);
          h1 = map_assign (CPU cr) instanceType cpu h;
          h2 = map_assign (Memory cr) instanceType memory h1;
          tr1 = tr @ [ContainersPossibleCall cpu memory (RegisteredResources container)]
      in case ContainersPossible cpu memory (RegisteredResources container) of
           Inl p \<Rightarrow> (Inl p, tr1)
         | Inr registered \<Rightarrow>
             (let h3 = map_add_assign (Registered cr) instanceType registered h2;
                  tr2 = tr1 @ [ContainersPossibleCall cpu memory (RemainingResources container)]
              in case ContainersPossible cpu memory (RemainingResources container) of
                   Inl p \<Rightarrow> (Inl p, tr2)
                 | Inr remaining \<Rightarrow>
                     DescribeResourcesByInstanceType_loop cr cpu memory containers
                       (map_add_assign (Remaining cr) instanceType remaining h3) tr2))"

definition DescribeResourcesByInstanceType ::
  "ECSAPI \<Rightarrow> range_order \<Rightarrow> (nat \<Rightarrow> nat) \<Rightarrow> nat \<Rightarrow> string \<Rightarrow> string list \<Rightarrow> go_int \<Rightarrow> go_int
     \<Rightarrow> event list \<Rightarrow> (panic + MetricDatum list) \<times> event list" where
  "DescribeResourcesByInstanceType sn ro clock n cluster instances cpu memory tr =
     (let (cr, h) = NewClusterResources cluster empty_heap;
          containers = DescribeContainerInstances sn cluster instances;
          tr1 = tr @ [DescribeContainerInstancesCall cluster instances]
      in case DescribeResourcesByInstanceType_loop cr cpu memory containers h tr1 of
           (Inl p, tr2) \<Rightarrow> (Inl p, tr2)
         | (Inr h1, tr2) \<Rightarrow> (Inr (fst (ToMetricData ro clock n cr h1)), tr2))"

section \<open>Measuring a cluster\<close>

text \<open>
  \<^verbatim>\<open>MeasureCluster\<close> returns the metric points of one cluster, or the panic that ended
  it, together with the calls it made. \<^verbatim>\<open>Measure\<close> starts it once for every name that
  \<^verbatim>\<open>DiscoverClusters\<close> sends and appends the lists returned; the goroutines share the
  provider only, so what holds of \<^verbatim>\<open>MeasureCluster\<close> for every cluster and every
  provider holds of each of them.
\<close>

definition MeasureCluster ::
  "ECSAPI \<Rightarrow> range_order \<Rightarrow> (nat \<Rightarrow> nat) \<Rightarrow> nat \<Rightarrow> string
     \<Rightarrow> (panic + MetricDatum list) \<times> event list" where
  "MeasureCluster sn ro clock n cluster =
     (let ((cpu, memory), tr) = task_footprint sn cluster
      in if cpu = 0 \<or> memory = 0 then (Inr [], tr)
         else
           (let instances = ListContainerInstances sn cluster;
                tr1 = tr @ [ListContainerInstancesCall cluster ''ACTIVE'']
            in DescribeResourcesByInstanceType sn ro clock n cluster instances cpu memory tr1))"

section \<open>Cluster discovery\<close>

text \<open>
  \<^verbatim>\<open>strings.Split(s, sep)\<close> of Go's standard library, for a non-empty separator: the
  string is cut at the leftmost occurrences of \<open>sep\<close>, which do not overlap. \<open>part\<close>
  holds the characters of the current part. (An empty separator cuts after every
  character.)
\<close>

function Split_from :: "string \<Rightarrow> string \<Rightarrow> string \<Rightarrow> string list" where
  "Split_from sep part [] = [part]"
| "Split_from sep part (c # cs) =
     (if prefix sep (c # cs) then part # Split_from sep [] (drop (length sep - 1) cs)
      else Split_from sep (part @ [c]) cs)"
  by pat_completeness auto
termination
  by (relation "measure (\<lambda>(sep, part, s). length s)") auto

definition Split :: "string \<Rightarrow> string \<Rightarrow> string list" where
  "Split s sep = (if sep = [] then map (\<lambda>c. [c]) s else Split_from sep [] s)"

text \<open>The expression \<^verbatim>\<open>strings.Split(*arn, ":cluster/")[1]\<close>; the index panics when out of range.\<close>

definition cluster_name :: "string \<Rightarrow> panic + string" where
  "cluster_name arn =
     (let parts = Split arn '':cluster/''
      in if 1 < length parts then Inr (parts ! 1) else Inl IndexOutOfRange)"

text \<open>
  The names sent on the channel, in order, and the panic that ended the sending, if any.
\<close>

fun DiscoverClusters_page :: "string list \<Rightarrow> string list \<times> panic option" where
  "DiscoverClusters_page [] = ([], None)"
| "DiscoverClusters_page (arn # arns) =
     (case cluster_name arn of
        Inl p \<Rightarrow> ([], Some p)
      | Inr name \<Rightarrow> (let (names, p) = DiscoverClusters_page arns in (name # names, p)))"

fun DiscoverClusters_pages :: "string list list \<Rightarrow> string list \<times> panic option" where
  "DiscoverClusters_pages [] = ([], None)"
| "DiscoverClusters_pages (page # pages) =
     (case DiscoverClusters_page page of
        (names, Some p) \<Rightarrow> (names, Some p)
      | (names, None) \<Rightarrow>
          (let (more, p) = DiscoverClusters_pages pages in (names @ more, p)))"

definition DiscoverClusters :: "ECSAPI \<Rightarrow> string list \<times> panic option" where
  "DiscoverClusters sn = DiscoverClusters_pages (pages_seen (fst (ECS_ListClustersPages sn)))"

text \<open>Go's \<^verbatim>\<open>strings.Contains\<close>, used to say where the separator occurs.\<close>

fun Contains :: "string \<Rightarrow> string \<Rightarrow> bool" where
  "Contains [] substr = (substr = [])"
| "Contains (c # cs) substr = (prefix substr (c # cs) \<or> Contains cs substr)"

section \<open>Publishing\<close>

text \<open>
  \<^verbatim>\<open>Validate\<close> belongs to the SDK and \<^verbatim>\<open>PutMetricData\<close> to the metrics backend:
  both are inputs. The backend may answer from what it was sent before, so it is given
  the earlier submissions. The result is the log of the batches, one entry for each
  turn of the loop.
\<close>

record PutMetricDataInput =
  Namespace :: "string option"
  MetricData :: "MetricDatum list"

datatype publish_event =
    Invalid PutMetricDataInput
  | NotPublished PutMetricDataInput
  | Published PutMetricDataInput

fun event_input :: "publish_event \<Rightarrow> PutMetricDataInput" where
  "event_input (Invalid input) = input"
| "event_input (NotPublished input) = input"
| "event_input (Published input) = input"

fun submitted :: "publish_event list \<Rightarrow> PutMetricDataInput list" where
  "submitted [] = []"
| "submitted (Invalid input # es) = submitted es"
| "submitted (NotPublished input # es) = input # submitted es"
| "submitted (Published input # es) = input # submitted es"

definition batchSize :: nat where
  "batchSize = 20"

function Publish_loop ::
  "(PutMetricDataInput \<Rightarrow> bool) \<Rightarrow> (PutMetricDataInput list \<Rightarrow> PutMetricDataInput \<Rightarrow> bool)
     \<Rightarrow> string option \<Rightarrow> MetricDatum list \<Rightarrow> nat \<Rightarrow> publish_event list \<Rightarrow> publish_event list" where
  "Publish_loop validate put namespace metricData i log =
     (if i < length metricData then
        (let end = (if i + batchSize > length metricData then length metricData else i + batchSize);
             input = \<lparr>Namespace = namespace, MetricData = take (end - i) (drop i metricData)\<rparr>
         in if \<not> validate input then
              Publish_loop validate put namespace metricData (i + batchSize) (log @ [Invalid input])
            else if \<not> put (submitted log) input then
              Publish_loop validate put namespace metricData (i + batchSize) (log @ [NotPublished input])
            else
              Publish_loop validate put namespace metricData (i + batchSize) (log @ [Published input]))
      else log)"
  by pat_completeness auto
termination
  by (relation "measure (\<lambda>(validate, put, namespace, metricData, i, log). length metricData - i)")
    (auto simp: batchSize_def)

definition Publish ::
  "(PutMetricDataInput \<Rightarrow> bool) \<Rightarrow> (PutMetricDataInput list \<Rightarrow> PutMetricDataInput \<Rightarrow> bool)
     \<Rightarrow> string option \<Rightarrow> MetricDatum list \<Rightarrow> publish_event list" where
  "Publish validate put namespace metricData = Publish_loop validate put namespace metricData 0 []"

definition batches_of :: "publish_event list \<Rightarrow> MetricDatum list list" where
  "batches_of log = map (\<lambda>e. MetricData (event_input e)) log"

section \<open>The task footprint, as the specification reads it\<close>

text \<open>
  The tasks described during the footprint phase: those of every batch that
  \<^verbatim>\<open>DescribeTasks\<close> answers without error, in the order of the batches.
\<close>

fun described_from :: "ECSAPI \<Rightarrow> string \<Rightarrow> nat \<Rightarrow> string list list \<Rightarrow> Task list" where
  "described_from sn cluster i [] = []"
| "described_from sn cluster i (tasks # batches) =
     (case ECS_DescribeTasks sn i cluster tasks of None \<Rightarrow> [] | Some described \<Rightarrow> described)
       @ described_from sn cluster (Suc i) batches"

definition described_tasks :: "ECSAPI \<Rightarrow> string \<Rightarrow> Task list" where
  "described_tasks sn cluster = described_from sn cluster 0 (DiscoverTasks sn cluster)"

text \<open>
  \<open>max_seen\<close> is the maximum of 0 and of whatever \<^verbatim>\<open>Atoi\<close> returns for a field of the
  tasks. \<open>parsed_max\<close> is the maximum of 0 and of the values of the strings that parse;
  the strings that do not parse are left out of it.
\<close>

definition max_seen :: "(Task \<Rightarrow> string) \<Rightarrow> Task list \<Rightarrow> int" where
  "max_seen field tasks = Max (insert 0 (set (map (\<lambda>t. sint (fst (Atoi (field t)))) tasks)))"

definition parses :: "string \<Rightarrow> bool" where
  "parses s \<longleftrightarrow> snd (Atoi s) = None"



section \<open>Providers used as examples\<close>

text \<open>
  \<open>fake_ecs\<close> answers as \<^verbatim>\<open>NewFakeECS\<close> of \<^verbatim>\<open>collector_test.go\<close> does: one page of
  three task identifiers, the three tasks of \<^verbatim>\<open>expectedDescribeTasksOutput\<close>, three
  container instances of type \<^verbatim>\<open>fake.2xlarge\<close> with 8192 CPU units and 15468 MiB, and
  three pages of one cluster identifier each. The identifiers of tasks and of container
  instances are shortened.
\<close>

definition fake_tasks :: "Task list" where
  "fake_tasks =
     [\<lparr>Task_Cpu = ''2560'', Task_Memory = ''1440''\<rparr>,
      \<lparr>Task_Cpu = ''1024'', Task_Memory = ''3072''\<rparr>,
      \<lparr>Task_Cpu = ''invalidCPU'', Task_Memory = ''invalidMemory''\<rparr>]"

definition fake_instance :: ContainerInstance where
  "fake_instance =
     \<lparr>Attributes = [\<lparr>Attribute_Name = ''ecs.instance-type'', Attribute_Value = ''fake.2xlarge''\<rparr>],
      RegisteredResources =
        [\<lparr>Resource_Name = ''CPU'', IntegerValue = 8192\<rparr>,
         \<lparr>Resource_Name = ''MEMORY'', IntegerValue = 15468\<rparr>],
      RemainingResources =
        [\<lparr>Resource_Name = ''CPU'', IntegerValue = 5632\<rparr>,
         \<lparr>Resource_Name = ''MEMORY'', IntegerValue = 12396\<rparr>]\<rparr>"

definition fake_ecs :: ECSAPI where
  "fake_ecs =
     \<lparr>ECS_ListClustersPages =
        ([[''arn:aws:ecs:us-east-1:123456789012:cluster/fake-ecs-cluster''],
          [''arn:aws:ecs:us-east-1:123456789012:cluster/another-fake-ecs-cluster''],
          [''arn:aws:ecs:us-east-1:123456789012:cluster/who-even-uses-fargate'']], False),
      ECS_ListTasksPages = (\<lambda>cluster. ([[''task/1394beef'', ''task/6649bf9d'', ''task/b9cfa5da'']], False)),
      ECS_DescribeTasks = (\<lambda>i cluster tasks. Some fake_tasks),
      ECS_ListContainerInstances =
        (\<lambda>cluster status. Some [''container-instance/30ed79a6'', ''container-instance/31b326d2'',
           ''container-instance/4c684147'']),
      ECS_DescribeContainerInstances =
        (\<lambda>cluster instances. Some [fake_instance, fake_instance, fake_instance])\<rparr>"


text \<open>A provider that reports no task at all: one empty page.\<close>

definition empty_ecs :: ECSAPI where
  "empty_ecs =
     fake_ecs\<lparr>ECS_ListTasksPages := (\<lambda>cluster. ([[]], False)),
       ECS_DescribeTasks := (\<lambda>i cluster tasks. Some [])\<rparr>"

section \<open>Observations on traces and ledgers\<close>

fun container_instance_call :: "event \<Rightarrow> bool" where
  "container_instance_call (ListContainerInstancesCall cluster status) = True"
| "container_instance_call (DescribeContainerInstancesCall cluster instances) = True"
| "container_instance_call e = False"

definition capacity_calls :: "go_int \<Rightarrow> go_int \<Rightarrow> ContainerInstance list \<Rightarrow> event list" where
  "capacity_calls cpu memory containers =
     concat (map (\<lambda>c. [ContainersPossibleCall cpu memory (RegisteredResources c),
                        ContainersPossibleCall cpu memory (RemainingResources c)]) containers)"

definition keys :: "heap \<Rightarrow> nat \<Rightarrow> string set" where
  "keys h r = fst ` set (cells h r)"

definition instance_types :: "ContainerInstance list \<Rightarrow> string set" where
  "instance_types containers = set (map (\<lambda>c. getInstanceType (Attributes c)) containers)"

text \<open>
  The ledger after the capacity phase, as the specification describes it: every container
  instance is recorded in turn, with the footprint and its two capacity counts.
\<close>

definition capacity_count :: "go_int \<Rightarrow> go_int \<Rightarrow> Resource list \<Rightarrow> go_int" where
  "capacity_count cpu memory resources =
     go_min (capacity_by ''CPU'' cpu resources) (capacity_by ''MEMORY'' memory resources)"

definition record_all ::
  "ClusterResources \<Rightarrow> go_int \<Rightarrow> go_int \<Rightarrow> ContainerInstance list \<Rightarrow> heap \<Rightarrow> heap" where
  "record_all cr cpu memory containers h =
     foldl (\<lambda>h c. record_instance cr (getInstanceType (Attributes c)) cpu memory
                    (capacity_count cpu memory (RegisteredResources c))
                    (capacity_count cpu memory (RemainingResources c)) h)
       h containers"

section \<open>Metric points, as the specification describes them\<close>

definition point :: "string \<Rightarrow> nat \<Rightarrow> string \<Rightarrow> string \<Rightarrow> go_int \<Rightarrow> MetricDatum" where
  "point cluster time name instanceType v =
     \<lparr>MetricName = name,
      Dimensions = [\<lparr>Dimension_Name = ''ClusterName'', Dimension_Value = cluster\<rparr>,
                    \<lparr>Dimension_Name = ''InstanceType'', Dimension_Value = instanceType\<rparr>],
      Timestamp = time, Value = v, Unit = ''Count''\<rparr>"

text \<open>
  A fresh ledger for \<open>cluster\<close>, a list of recordings (instance type, CPU footprint,
  memory footprint, registered count, remaining count) made in turn, and the conversion
  of the result, which takes reading \<open>n\<close> of the clock.
\<close>

definition ledger_points ::
  "range_order \<Rightarrow> (nat \<Rightarrow> nat) \<Rightarrow> nat \<Rightarrow> string \<Rightarrow> heap
     \<Rightarrow> (string \<times> go_int \<times> go_int \<times> go_int \<times> go_int) list \<Rightarrow> MetricDatum list" where
  "ledger_points ro clock n cluster h0 recordings =
     (let (cr, h) = NewClusterResources cluster h0
      in fst (ToMetricData ro clock n cr
           (foldl (\<lambda>h (instanceType, cpu, memory, registered, remaining).
                     record_instance cr instanceType cpu memory registered remaining h)
              h recordings)))"

section \<open>Inputs within the range of the counters\<close>

text \<open>
  The resources that \<^verbatim>\<open>ContainersPossible\<close> reads, their total over a resource vector,
  and the container instances for which no count can leave the range of \<^verbatim>\<open>int\<close>: no
  value read is negative, and the totals of the registered and of the remaining vectors
  stay below \<open>2^63\<close>.
\<close>

definition relevant :: "Resource list \<Rightarrow> Resource list" where
  "relevant resources =
     filter (\<lambda>r. Resource_Name r = ''CPU'' \<or> Resource_Name r = ''MEMORY'') resources"

definition resource_total :: "Resource list \<Rightarrow> int" where
  "resource_total resources = sum_list (map (\<lambda>r. sint (IntegerValue r)) (relevant resources))"

definition modest :: "ContainerInstance list \<Rightarrow> bool" where
  "modest containers \<longleftrightarrow>
     list_all (\<lambda>c. nonneg_resources (relevant (RegisteredResources c))
                  \<and> nonneg_resources (relevant (RemainingResources c))) containers
     \<and> sum_list (map (\<lambda>c. resource_total (RegisteredResources c)) containers) < 2 ^ 63
     \<and> sum_list (map (\<lambda>c. resource_total (RemainingResources c)) containers) < 2 ^ 63"

definition values_sum :: "go_map \<Rightarrow> int" where
  "values_sum m = sum_list (map (\<lambda>e. sint (snd e)) m)"

definition nonneg_values :: "go_map \<Rightarrow> bool" where
  "nonneg_values m = list_all (\<lambda>e. 0 \<le>s snd e) m"

text \<open>A container instance that reports a negative remaining CPU value.\<close>

definition negative_ecs :: ECSAPI where
  "negative_ecs =
     fake_ecs\<lparr>ECS_DescribeContainerInstances :=
       (\<lambda>cluster instances.
          Some [fake_instance\<lparr>RemainingResources :=
                  [\<lparr>Resource_Name = ''CPU'', IntegerValue = - 4096\<rparr>,
                   \<lparr>Resource_Name = ''MEMORY'', IntegerValue = 12396\<rparr>]\<rparr>])\<rparr>"

text \<open>
  Two container instances of one type whose registered counts, each within range, add up
  to \<open>2^63\<close>.
\<close>

definition overflow_ecs :: ECSAPI where
  "overflow_ecs =
     fake_ecs\<lparr>ECS_DescribeTasks := (\<lambda>i cluster tasks. Some [\<lparr>Task_Cpu = ''1'', Task_Memory = ''1''\<rparr>]),
       ECS_DescribeContainerInstances :=
         (\<lambda>cluster instances.
            Some [fake_instance\<lparr>RegisteredResources :=
                    [\<lparr>Resource_Name = ''CPU'', IntegerValue = 4611686018427387904\<rparr>,
                     \<lparr>Resource_Name = ''MEMORY'', IntegerValue = 4611686018427387904\<rparr>]\<rparr>,
                  fake_instance\<lparr>RegisteredResources :=
                    [\<lparr>Resource_Name = ''CPU'', IntegerValue = 4611686018427387904\<rparr>,
                     \<lparr>Resource_Name = ''MEMORY'', IntegerValue = 4611686018427387904\<rparr>]\<rparr>])\<rparr>"

text \<open>A clock for the examples: reading \<open>n\<close> is \<open>n\<close> ticks after a fixed instant.\<close>

definition epoch_clock :: "nat \<Rightarrow> nat" where
  "epoch_clock n = 1500000000 + n"

section \<open>Batches, as the specification describes them\<close>

text \<open>A list cut into consecutive pieces of \<open>n\<close> elements, the last one possibly shorter.\<close>

function chunks :: "nat \<Rightarrow> 'a list \<Rightarrow> 'a list list" where
  "chunks n xs = (if n = 0 \<or> xs = [] then [] else take n xs # chunks n (drop n xs))"
  by pat_completeness auto
termination
  by (relation "measure (\<lambda>(n, xs). length xs)") auto

fun is_invalid :: "publish_event \<Rightarrow> bool" where
  "is_invalid (Invalid input) = True"
| "is_invalid (NotPublished input) = False"
| "is_invalid (Published input) = False"

text \<open>Metric points to publish in the examples, told apart by their values.\<close>

definition sample_points :: "nat \<Rightarrow> MetricDatum list" where
  "sample_points k =
     map (\<lambda>i. point ''ecs-self-publishing-cluster'' 0 ''RegisteredSchedulable'' ''fake.instanceType''
                (word_of_nat i)) [0..<k]"

text \<open>
  A validation that asks for a namespace only, and a backend that rejects every
  submission, as the fake of \<^verbatim>\<open>TestSnitcher_PublishError\<close> does.
\<close>

definition namespace_required :: "PutMetricDataInput \<Rightarrow> bool" where
  "namespace_required input = (Namespace input \<noteq> None)"

definition failing_backend :: "PutMetricDataInput list \<Rightarrow> PutMetricDataInput \<Rightarrow> bool" where
  "failing_backend history input = False"

section \<open>Cluster identifiers, as the specification describes them\<close>

text \<open>
  An identifier of the form \<^verbatim>\<open>arn:...:cluster/<name>\<close>, given by what stands before the
  separator and by the name. In the identifiers of clusters the separator occurs once:
  neither part contains it.
\<close>

definition cluster_arn :: "string \<times> string \<Rightarrow> string" where
  "cluster_arn parts = fst parts @ '':cluster/'' @ snd parts"

definition separator_once :: "string \<times> string \<Rightarrow> bool" where
  "separator_once parts \<longleftrightarrow>
     \<not> Contains (fst parts) '':cluster/'' \<and> \<not> Contains (snd parts) '':cluster/''"

definition fake_cluster_parts :: "(string \<times> string) list list" where
  "fake_cluster_parts =
     [[(''arn:aws:ecs:us-east-1:123456789012'', ''fake-ecs-cluster'')],
      [(''arn:aws:ecs:us-east-1:123456789012'', ''another-fake-ecs-cluster'')],
      [(''arn:aws:ecs:us-east-1:123456789012'', ''who-even-uses-fargate'')]]"

section \<open>The log of a publication, as the specification describes it\<close>

text \<open>
  What happens to one batch: it is validated; an invalid batch is logged and not
  submitted; a valid batch is submitted, and the answer of the backend decides between a
  logged failure and a publication. \<open>history\<close> holds the submissions made before.
\<close>

definition outcome ::
  "(PutMetricDataInput \<Rightarrow> bool) \<Rightarrow> (PutMetricDataInput list \<Rightarrow> PutMetricDataInput \<Rightarrow> bool)
     \<Rightarrow> PutMetricDataInput list \<Rightarrow> PutMetricDataInput \<Rightarrow> publish_event" where
  "outcome validate put history input =
     (if \<not> validate input then Invalid input
      else if \<not> put history input then NotPublished input
      else Published input)"

text \<open>The batches taken in turn, whatever happened to the batches before.\<close>

fun publish_log ::
  "(PutMetricDataInput \<Rightarrow> bool) \<Rightarrow> (PutMetricDataInput list \<Rightarrow> PutMetricDataInput \<Rightarrow> bool)
     \<Rightarrow> string option \<Rightarrow> PutMetricDataInput list \<Rightarrow> MetricDatum list list \<Rightarrow> publish_event list" where
  "publish_log validate put ns history [] = []"
| "publish_log validate put ns history (batch # rest) =
     outcome validate put history \<lparr>Namespace = ns, MetricData = batch\<rparr>
       # publish_log validate put ns
           (history @ submitted [outcome validate put history \<lparr>Namespace = ns, MetricData = batch\<rparr>])
           rest"

text \<open>A backend that rejects the first submission it receives and accepts the later ones.\<close>

definition first_fails :: "PutMetricDataInput list \<Rightarrow> PutMetricDataInput \<Rightarrow> bool" where
  "first_fails history input \<longleftrightarrow> history \<noteq> []"

text \<open>
  A provider whose only task has a CPU value and a memory value that are both beyond the
  64-bit range.
\<close>

definition unparseable_ecs :: ECSAPI where
  "unparseable_ecs =
     fake_ecs\<lparr>ECS_DescribeTasks :=
       (\<lambda>i cluster tasks.
          Some [\<lparr>Task_Cpu = ''99999999999999999999'', Task_Memory = ''99999999999999999999''\<rparr>])\<rparr>"

section \<open>Facts about Go integers\<close>

lemma sint_bounds64: "- (2 ^ 63) \<le> sint (x::go_int)" "sint (x::go_int) < 2 ^ 63"
  using sint_range_size [of x] by (simp_all add: word_size)

lemma sint_add_no_overflow:
  fixes a b :: go_int
  assumes "0 \<le> sint a" "0 \<le> sint b" "sint a + sint b < 2 ^ 63"
  shows "sint (a + b) = sint a + sint b"
proof -
  have "signed_take_bit 63 (sint a + sint b) = sint a + sint b"
    using assms by (intro signed_take_bit_int_eq_self) linarith+
  then show ?thesis by (simp add: sint_word_add)
qed

lemma sint_go_quo:
  assumes "0 \<le>s x" "0 <s y"
  shows "sint (go_quo x y) = sint x div sint y" and "0 \<le> sint x div sint y"
proof -
  have x: "0 \<le> sint x" and y: "0 < sint y"
    using assms by (simp_all add: word_sle_eq word_sless_alt)
  have e: "sint x sdiv sint y = sint x div sint y"
    using x y by (simp add: signed_divide_int_def sgn_if)
  have le: "sint x div sint y \<le> sint x"
    using zdiv_mono2 [of "sint x" 1 "sint y"] x y by simp
  show ge: "0 \<le> sint x div sint y"
    using x y by (simp add: pos_imp_zdiv_nonneg_iff)
  have "signed_take_bit 63 (sint x div sint y) = sint x div sint y"
    using le ge sint_bounds64 [of x] by (intro signed_take_bit_int_eq_self) linarith+
  then show "sint (go_quo x y) = sint x div sint y"
    by (simp add: go_quo_def e sint_sbintrunc')
qed

lemma pos_nonzero: "0 <s (x::go_int) \<Longrightarrow> x \<noteq> 0"
  by (auto simp: word_sless_alt)

lemma sint_go_min: "sint (go_min a b) = min (sint a) (sint b)"
  by (simp add: go_min_def word_sle_eq min_def)

lemma go_quo_8192_1024: "go_quo 8192 1024 = 8"
  by (simp add: go_quo_def signed_divide_int_def)

lemma go_quo_8192_2048: "go_quo 8192 2048 = 4"
  by (simp add: go_quo_def signed_divide_int_def)

lemma go_quo_3072_1024: "go_quo 3072 1024 = 3"
  by (simp add: go_quo_def signed_divide_int_def)

lemma go_quo_0: "go_quo 0 y = 0"
  by (simp add: go_quo_def signed_divide_int_def)

lemmas go_quo_examples = go_quo_8192_1024 go_quo_8192_2048 go_quo_3072_1024 go_quo_0

section \<open>The capacity calculator is the smaller of two sums\<close>

lemma ContainersPossible_loop_sums:
  "cpu \<noteq> 0 \<Longrightarrow> memory \<noteq> 0 \<Longrightarrow>
   ContainersPossible_loop cpu memory rs a b =
     Inr (a + capacity_by ''CPU'' cpu rs, b + capacity_by ''MEMORY'' memory rs)"
  by (induction rs arbitrary: a b) (simp_all add: capacity_by_def go_div_def add.assoc)

lemma ContainersPossible_eq_min:
  "cpu \<noteq> 0 \<Longrightarrow> memory \<noteq> 0 \<Longrightarrow>
   ContainersPossible cpu memory rs =
     Inr (go_min (capacity_by ''CPU'' cpu rs) (capacity_by ''MEMORY'' memory rs))"
  by (auto simp add: ContainersPossible_def ContainersPossible_loop_sums go_min_def signed.not_less)

lemma capacity_int_nonneg:
  "nonneg_resources rs \<Longrightarrow> 0 <s unit \<Longrightarrow> 0 \<le> capacity_int name unit rs"
  by (induction rs) (simp_all add: capacity_int_def nonneg_resources_def sint_go_quo(2))

lemma sint_capacity_by:
  "nonneg_resources rs \<Longrightarrow> 0 <s unit \<Longrightarrow> capacity_int name unit rs < 2 ^ 63 \<Longrightarrow>
   sint (capacity_by name unit rs) = capacity_int name unit rs"
proof (induction rs)
  case Nil
  then show ?case by (simp add: capacity_by_def capacity_int_def)
next
  case (Cons r rs)
  have nn: "nonneg_resources rs" and r: "0 \<le>s IntegerValue r"
    using Cons.prems(1) by (simp_all add: nonneg_resources_def)
  have tail: "0 \<le> capacity_int name unit rs"
    using nn Cons.prems(2) by (rule capacity_int_nonneg)
  show ?case
  proof (cases "Resource_Name r = name")
    case False
    then have "capacity_by name unit (r # rs) = capacity_by name unit rs"
      and "capacity_int name unit (r # rs) = capacity_int name unit rs"
      by (simp_all add: capacity_by_def capacity_int_def)
    then show ?thesis using Cons.IH [OF nn Cons.prems(2)] Cons.prems(3) by simp
  next
    case True
    have q: "sint (go_quo (IntegerValue r) unit) = sint (IntegerValue r) div sint unit"
      and q0: "0 \<le> sint (IntegerValue r) div sint unit"
      using sint_go_quo [OF r Cons.prems(2)] by simp_all
    have split: "capacity_int name unit (r # rs) =
        sint (IntegerValue r) div sint unit + capacity_int name unit rs"
      using True by (simp add: capacity_int_def)
    have lt: "capacity_int name unit rs < 2 ^ 63"
      using Cons.prems(3) q0 split by linarith
    have ih: "sint (capacity_by name unit rs) = capacity_int name unit rs"
      using Cons.IH [OF nn Cons.prems(2) lt] .
    have "capacity_by name unit (r # rs) = go_quo (IntegerValue r) unit + capacity_by name unit rs"
      using True by (simp add: capacity_by_def)
    then have "sint (capacity_by name unit (r # rs)) =
        sint (go_quo (IntegerValue r) unit) + sint (capacity_by name unit rs)"
      using sint_add_no_overflow [of "go_quo (IntegerValue r) unit" "capacity_by name unit rs"]
        q q0 ih tail Cons.prems(3) split by simp
    then show ?thesis using q ih split by simp
  qed
qed

lemma ContainersPossible_int:
  assumes "0 <s cpu" "0 <s memory" "nonneg_resources rs"
    "capacity_int ''CPU'' cpu rs < 2 ^ 63" "capacity_int ''MEMORY'' memory rs < 2 ^ 63"
  shows "\<exists>n. ContainersPossible cpu memory rs = Inr n \<and>
     sint n = min (capacity_int ''CPU'' cpu rs) (capacity_int ''MEMORY'' memory rs)"
  using assms
  by (simp add: ContainersPossible_eq_min pos_nonzero sint_go_min sint_capacity_by)

lemma ContainersPossible_8192_8192:
  "ContainersPossible 1024 2048
     [\<lparr>Resource_Name = ''CPU'', IntegerValue = 8192\<rparr>,
      \<lparr>Resource_Name = ''MEMORY'', IntegerValue = 8192\<rparr>] = Inr 4"
  by (simp add: ContainersPossible_def go_div_def go_quo_examples word_sless_alt)

lemma ContainersPossible_0_8192:
  "ContainersPossible 1024 2048
     [\<lparr>Resource_Name = ''CPU'', IntegerValue = 0\<rparr>,
      \<lparr>Resource_Name = ''MEMORY'', IntegerValue = 8192\<rparr>] = Inr 0"
  by (simp add: ContainersPossible_def go_div_def go_quo_examples word_sless_alt)

lemma ContainersPossible_3072_8192:
  "ContainersPossible 1024 1024
     [\<lparr>Resource_Name = ''CPU'', IntegerValue = 3072\<rparr>,
      \<lparr>Resource_Name = ''MEMORY'', IntegerValue = 8192\<rparr>] = Inr 3"
  by (simp add: ContainersPossible_def go_div_def go_quo_examples word_sless_alt)

text \<open>
  Claim C1, as stated, speaks of every footprint. At a footprint with a zero component
  and a resource of that name the division panics, and \<^verbatim>\<open>ContainersPossible\<close> returns
  no number at all.
\<close>

theorem ContainersPossible_zero_footprint_panics:
  "ContainersPossible 0 2048
     [\<lparr>Resource_Name = ''CPU'', IntegerValue = 8192\<rparr>,
      \<lparr>Resource_Name = ''MEMORY'', IntegerValue = 8192\<rparr>] = Inl DivideByZero
   \<and> ContainersPossible 0 2048
     [\<lparr>Resource_Name = ''CPU'', IntegerValue = 8192\<rparr>,
      \<lparr>Resource_Name = ''MEMORY'', IntegerValue = 8192\<rparr>]
     \<noteq> Inr (go_min
         (capacity_by ''CPU'' 0
           [\<lparr>Resource_Name = ''CPU'', IntegerValue = 8192\<rparr>,
            \<lparr>Resource_Name = ''MEMORY'', IntegerValue = 8192\<rparr>])
         (capacity_by ''MEMORY'' 2048
           [\<lparr>Resource_Name = ''CPU'', IntegerValue = 8192\<rparr>,
            \<lparr>Resource_Name = ''MEMORY'', IntegerValue = 8192\<rparr>]))"
  by (simp add: ContainersPossible_def go_div_def)

text \<open>
  Claim C1, amended: for every footprint whose two components are not zero and every
  resource vector, \<^verbatim>\<open>ContainersPossible\<close> returns the smaller of the CPU capacity and
  the memory capacity, each the sum over the entries of that name of the quotient of the
  value by the unit, in Go's \<^verbatim>\<open>int\<close> arithmetic; entries of another name are ignored.
  When moreover the footprint is positive, no value is negative and neither sum reaches
  \<open>2^63\<close>, the result is the minimum of the two sums of flooring quotients over the
  integers. Footprint (1024, 2048) with CPU=8192, MEMORY=8192 gives 4, with CPU=0,
  MEMORY=8192 gives 0, and footprint (1024, 1024) with CPU=3072, MEMORY=8192 gives 3.
\<close>

theorem ContainersPossible_min_capacity:
  "(cpu \<noteq> 0 \<and> memory \<noteq> 0 \<longrightarrow>
      ContainersPossible cpu memory resources =
        Inr (go_min (capacity_by ''CPU'' cpu resources) (capacity_by ''MEMORY'' memory resources)))
   \<and> (0 <s cpu \<and> 0 <s memory \<and> nonneg_resources resources
        \<and> capacity_int ''CPU'' cpu resources < 2 ^ 63
        \<and> capacity_int ''MEMORY'' memory resources < 2 ^ 63 \<longrightarrow>
      (\<exists>n. ContainersPossible cpu memory resources = Inr n
         \<and> sint n = min (capacity_int ''CPU'' cpu resources)
                        (capacity_int ''MEMORY'' memory resources)))
   \<and> ContainersPossible 1024 2048
        [\<lparr>Resource_Name = ''CPU'', IntegerValue = 8192\<rparr>,
         \<lparr>Resource_Name = ''MEMORY'', IntegerValue = 8192\<rparr>] = Inr 4
   \<and> ContainersPossible 1024 2048
        [\<lparr>Resource_Name = ''CPU'', IntegerValue = 0\<rparr>,
         \<lparr>Resource_Name = ''MEMORY'', IntegerValue = 8192\<rparr>] = Inr 0
   \<and> ContainersPossible 1024 1024
        [\<lparr>Resource_Name = ''CPU'', IntegerValue = 3072\<rparr>,
         \<lparr>Resource_Name = ''MEMORY'', IntegerValue = 8192\<rparr>] = Inr 3"
  using ContainersPossible_eq_min [of cpu memory resources]
    ContainersPossible_int [of cpu memory resources]
    ContainersPossible_8192_8192 ContainersPossible_0_8192 ContainersPossible_3072_8192
  by blast

theorem ContainersPossible_min_capacity_witness:
  "(1024 :: go_int) \<noteq> 0 \<and> (1024 :: go_int) \<noteq> 0
   \<and> 0 <s (1024 :: go_int)
   \<and> nonneg_resources
        [\<lparr>Resource_Name = ''CPU'', IntegerValue = 3072\<rparr>,
         \<lparr>Resource_Name = ''GPU'', IntegerValue = 7\<rparr>,
         \<lparr>Resource_Name = ''MEMORY'', IntegerValue = 8192\<rparr>]
   \<and> capacity_int ''CPU'' 1024
        [\<lparr>Resource_Name = ''CPU'', IntegerValue = 3072\<rparr>,
         \<lparr>Resource_Name = ''GPU'', IntegerValue = 7\<rparr>,
         \<lparr>Resource_Name = ''MEMORY'', IntegerValue = 8192\<rparr>] = 3
   \<and> capacity_int ''MEMORY'' 1024
        [\<lparr>Resource_Name = ''CPU'', IntegerValue = 3072\<rparr>,
         \<lparr>Resource_Name = ''GPU'', IntegerValue = 7\<rparr>,
         \<lparr>Resource_Name = ''MEMORY'', IntegerValue = 8192\<rparr>] = 8
   \<and> (\<exists>n. ContainersPossible 1024 1024
        [\<lparr>Resource_Name = ''CPU'', IntegerValue = 3072\<rparr>,
         \<lparr>Resource_Name = ''GPU'', IntegerValue = 7\<rparr>,
         \<lparr>Resource_Name = ''MEMORY'', IntegerValue = 8192\<rparr>] = Inr n \<and> sint n = 3)"
proof -
  let ?rs = "[\<lparr>Resource_Name = ''CPU'', IntegerValue = 3072\<rparr>,
         \<lparr>Resource_Name = ''GPU'', IntegerValue = 7\<rparr>,
         \<lparr>Resource_Name = ''MEMORY'', IntegerValue = 8192\<rparr>]"
  have nz: "(1024 :: go_int) \<noteq> 0" by simp
  have pos: "0 <s (1024 :: go_int)" by (simp add: word_sless_alt)
  have nn: "nonneg_resources ?rs" by (simp add: nonneg_resources_def word_sle_eq)
  have c: "capacity_int ''CPU'' 1024 ?rs = 3" by (simp add: capacity_int_def)
  have m: "capacity_int ''MEMORY'' 1024 ?rs = 8" by (simp add: capacity_int_def)
  have "\<exists>n. ContainersPossible 1024 1024 ?rs = Inr n \<and> sint n = 3"
    using ContainersPossible_min_capacity [of 1024 1024 ?rs, THEN conjunct2, THEN conjunct1]
      pos nn c m by simp
  then show ?thesis using nz pos nn c m by simp
qed

section \<open>The task footprint is a pair of maxima\<close>

lemmas Atoi_eval = Atoi_def ParseInt_def ParseUint_def is_digit_def digit_val_def maxUint64_def

lemma sint_running_max:
  "sint (if c <s x then x else c) = max (sint c) (sint x)"
  by (simp add: word_sless_alt max_def)

lemma MeasureResources_loop_max:
  "sint (fst (MeasureResources_loop ts c m)) =
     Max (insert (sint c) (set (map (\<lambda>t. sint (fst (Atoi (Task_Cpu t)))) ts)))
   \<and> sint (snd (MeasureResources_loop ts c m)) =
     Max (insert (sint m) (set (map (\<lambda>t. sint (fst (Atoi (Task_Memory t)))) ts)))"
proof (induction ts arbitrary: c m)
  case Nil
  then show ?case by simp
next
  case (Cons t ts)
  have ins: "\<And>a b (S :: int set). finite S \<Longrightarrow>
      Max (insert (max a b) S) = Max (insert a (insert b S))"
    by (metis Max_insert Max_singleton finite.insertI insert_not_empty max.assoc)
  show ?case
    by (simp add: Let_def Cons.IH sint_running_max ins del: Max_insert)
qed

lemma MeasureResources_max:
  "sint (fst (MeasureResources sn i cluster tasks)) =
     max_seen Task_Cpu (case ECS_DescribeTasks sn i cluster tasks of None \<Rightarrow> [] | Some d \<Rightarrow> d)
   \<and> sint (snd (MeasureResources sn i cluster tasks)) =
     max_seen Task_Memory (case ECS_DescribeTasks sn i cluster tasks of None \<Rightarrow> [] | Some d \<Rightarrow> d)"
  by (simp add: MeasureResources_def max_seen_def MeasureResources_loop_max split: option.split)

lemma max_seen_append:
  "max (max_seen f xs) (max_seen f ys) = max_seen f (xs @ ys)"
proof -
  let ?A = "insert 0 (set (map (\<lambda>t. sint (fst (Atoi (f t)))) xs))"
  let ?B = "insert 0 (set (map (\<lambda>t. sint (fst (Atoi (f t)))) ys))"
  have "Max (?A \<union> ?B) = max (Max ?A) (Max ?B)"
    by (rule Max_Un) simp_all
  moreover have "?A \<union> ?B = insert 0 (set (map (\<lambda>t. sint (fst (Atoi (f t)))) (xs @ ys)))"
    by auto
  ultimately show ?thesis by (simp add: max_seen_def)
qed

lemma max_seen_nonneg: "0 \<le> max_seen f xs"
  by (simp add: max_seen_def)

lemma MeasureCluster_loop_max:
  "0 \<le> sint c \<Longrightarrow> 0 \<le> sint m \<Longrightarrow>
   sint (fst (fst (MeasureCluster_loop sn cluster i bs c m tr))) =
     max (sint c) (max_seen Task_Cpu (described_from sn cluster i bs))
   \<and> sint (snd (fst (MeasureCluster_loop sn cluster i bs c m tr))) =
     max (sint m) (max_seen Task_Memory (described_from sn cluster i bs))"
proof (induction bs arbitrary: i c m tr)
  case Nil
  then show ?case by (simp add: max_seen_def)
next
  case (Cons b bs)
  obtain cc cm where mr: "MeasureResources sn i cluster b = (cc, cm)"
    by (cases "MeasureResources sn i cluster b")
  let ?d = "case ECS_DescribeTasks sn i cluster b of None \<Rightarrow> [] | Some d \<Rightarrow> d"
  have cc: "sint cc = max_seen Task_Cpu ?d" and cm: "sint cm = max_seen Task_Memory ?d"
    using MeasureResources_max [of sn i cluster b] mr by simp_all
  have c': "0 \<le> sint (if c <s cc then cc else c)" and m': "0 \<le> sint (if m <s cm then cm else m)"
    using Cons.prems by (simp_all add: sint_running_max)
  show ?case
    using Cons.IH [OF c' m', of "Suc i" "tr @ [DescribeTasksCall cluster b]"]
    by (simp add: mr sint_running_max cc cm max.assoc max_seen_append)
qed

lemma task_footprint_max:
  "sint (fst (fst (task_footprint sn cluster))) = max_seen Task_Cpu (described_tasks sn cluster)"
  "sint (snd (fst (task_footprint sn cluster))) = max_seen Task_Memory (described_tasks sn cluster)"
  by (simp_all add: task_footprint_def described_tasks_def MeasureCluster_loop_max max_seen_nonneg)

lemma Atoi_syntax_zero: "snd (Atoi s) = Some ErrSyntax \<Longrightarrow> fst (Atoi s) = 0"
  by (auto simp: Atoi_def ParseInt_def Let_def split: prod.splits if_splits)

lemma fake_footprint: "fst (task_footprint fake_ecs ''fake-ecs-cluster'') = (2560, 3072)"
  by (simp add: task_footprint_def DiscoverTasks_def fake_ecs_def MeasureResources_def fake_tasks_def
      Atoi_eval word_sless_alt)







section \<open>What a cluster measurement calls\<close>

lemma MeasureCluster_loop_trace:
  "snd (MeasureCluster_loop sn cluster i bs c m tr) = tr @ map (DescribeTasksCall cluster) bs"
  by (induction bs arbitrary: i c m tr) (simp_all add: split_beta)

lemma task_footprint_trace:
  "snd (task_footprint sn cluster) =
     ListTasksPagesCall cluster # map (DescribeTasksCall cluster) (DiscoverTasks sn cluster)"
  by (simp add: task_footprint_def MeasureCluster_loop_trace)

lemma task_footprint_nonneg:
  "0 \<le>s fst (fst (task_footprint sn cluster))" "0 \<le>s snd (fst (task_footprint sn cluster))"
  by (simp_all add: word_sle_eq task_footprint_max max_seen_nonneg)

lemma nonneg_nonzero_pos: "0 \<le>s (x::go_int) \<Longrightarrow> x \<noteq> 0 \<Longrightarrow> 0 <s x"
  by (simp add: signed.less_le)

lemma DescribeResourcesByInstanceType_loop_total:
  "cpu \<noteq> 0 \<Longrightarrow> memory \<noteq> 0 \<Longrightarrow>
   DescribeResourcesByInstanceType_loop cr cpu memory cs h tr =
     (Inr (record_all cr cpu memory cs h), tr @ capacity_calls cpu memory cs)"
  by (induction cs arbitrary: h tr)
    (simp_all add: capacity_calls_def ContainersPossible_eq_min Let_def record_all_def
      record_instance_def capacity_count_def)

lemma DescribeResourcesByInstanceType_total:
  "cpu \<noteq> 0 \<Longrightarrow> memory \<noteq> 0 \<Longrightarrow>
   DescribeResourcesByInstanceType sn ro clock n cluster instances cpu memory tr =
     (Inr (fst (ToMetricData ro clock n (fst (NewClusterResources cluster empty_heap))
            (record_all (fst (NewClusterResources cluster empty_heap)) cpu memory
              (DescribeContainerInstances sn cluster instances)
              (snd (NewClusterResources cluster empty_heap))))),
      tr @ DescribeContainerInstancesCall cluster instances
        # capacity_calls cpu memory (DescribeContainerInstances sn cluster instances))"
  by (simp add: DescribeResourcesByInstanceType_def split_beta Let_def
      DescribeResourcesByInstanceType_loop_total)

lemma MeasureCluster_skips:
  assumes "fst (fst (task_footprint sn cluster)) = 0 \<or> snd (fst (task_footprint sn cluster)) = 0"
  shows "MeasureCluster sn ro clock n cluster = (Inr [], snd (task_footprint sn cluster))"
  using assms by (auto simp: MeasureCluster_def split_beta)

lemma MeasureCluster_measures:
  assumes "fst (fst (task_footprint sn cluster)) \<noteq> 0" "snd (fst (task_footprint sn cluster)) \<noteq> 0"
  shows "MeasureCluster sn ro clock n cluster =
     (Inr (fst (ToMetricData ro clock n (fst (NewClusterResources cluster empty_heap))
            (record_all (fst (NewClusterResources cluster empty_heap))
              (fst (fst (task_footprint sn cluster))) (snd (fst (task_footprint sn cluster)))
              (DescribeContainerInstances sn cluster (ListContainerInstances sn cluster))
              (snd (NewClusterResources cluster empty_heap))))),
      snd (task_footprint sn cluster)
        @ ListContainerInstancesCall cluster ''ACTIVE''
        # DescribeContainerInstancesCall cluster (ListContainerInstances sn cluster)
        # capacity_calls (fst (fst (task_footprint sn cluster))) (snd (fst (task_footprint sn cluster)))
            (DescribeContainerInstances sn cluster (ListContainerInstances sn cluster)))"
  using assms
  by (simp add: MeasureCluster_def split_beta Let_def DescribeResourcesByInstanceType_total)

lemma max_seen_all_syntax_errors:
  "\<forall>t \<in> set ts. snd (Atoi (f t)) = Some ErrSyntax \<Longrightarrow> max_seen f ts = 0"
proof -
  assume "\<forall>t \<in> set ts. snd (Atoi (f t)) = Some ErrSyntax"
  then have "set (map (\<lambda>t. sint (fst (Atoi (f t)))) ts) \<subseteq> {0}"
    by (auto simp: Atoi_syntax_zero)
  then have "insert 0 (set (map (\<lambda>t. sint (fst (Atoi (f t)))) ts)) = {0}"
    by auto
  then show ?thesis by (simp only: max_seen_def Max_singleton)
qed

lemma sint_eq_0: "sint (x::go_int) = 0 \<Longrightarrow> x = 0"
  by (simp add: signed_eq_0_iff)

lemma empty_footprint: "task_footprint empty_ecs c = ((0, 0), [ListTasksPagesCall c, DescribeTasksCall c []])"
  by (simp add: task_footprint_def DiscoverTasks_def empty_ecs_def fake_ecs_def MeasureResources_def)

text \<open>
  Claim C6: in every measurement of a cluster, every invocation of \<^verbatim>\<open>ContainersPossible\<close>
  has a strictly positive \<^verbatim>\<open>cpu\<close> and a strictly positive \<^verbatim>\<open>memory\<close>, so it returns a
  count and does not divide by zero; the measurement itself always returns a list of
  metric points and never panics.
\<close>

theorem ContainersPossible_invoked_with_positive_footprint:
  "(\<forall>cpu memory resources.
      ContainersPossibleCall cpu memory resources \<in> set (snd (MeasureCluster sn ro clock n cluster)) \<longrightarrow>
        0 <s cpu \<and> 0 <s memory \<and> (\<exists>k. ContainersPossible cpu memory resources = Inr k))
   \<and> (\<exists>ds. fst (MeasureCluster sn ro clock n cluster) = Inr ds)"
proof (cases "fst (fst (task_footprint sn cluster)) = 0 \<or> snd (fst (task_footprint sn cluster)) = 0")
  case True
  then show ?thesis
    by (auto simp: MeasureCluster_skips task_footprint_trace)
next
  case False
  then have nz: "fst (fst (task_footprint sn cluster)) \<noteq> 0" "snd (fst (task_footprint sn cluster)) \<noteq> 0"
    by simp_all
  have pos: "0 <s fst (fst (task_footprint sn cluster))" "0 <s snd (fst (task_footprint sn cluster))"
    using nz task_footprint_nonneg [of sn cluster] by (simp_all add: nonneg_nonzero_pos)
  show ?thesis
    using pos nz
    by (auto simp: MeasureCluster_measures [OF nz] task_footprint_trace capacity_calls_def
        ContainersPossible_eq_min)
qed

theorem ContainersPossible_invoked_with_positive_footprint_witness:
  "ContainersPossibleCall 2560 3072 (RegisteredResources fake_instance)
     \<in> set (snd (MeasureCluster fake_ecs source_order (\<lambda>n. n) 0 ''fake-ecs-cluster''))
   \<and> 0 <s (2560 :: go_int) \<and> 0 <s (3072 :: go_int)
   \<and> (\<exists>k. ContainersPossible 2560 3072 (RegisteredResources fake_instance) = Inr k)"
proof -
  have f: "fst (task_footprint fake_ecs ''fake-ecs-cluster'') = (2560, 3072)"
    by (rule fake_footprint)
  have c: "DescribeContainerInstances fake_ecs ''fake-ecs-cluster''
      (ListContainerInstances fake_ecs ''fake-ecs-cluster'') = [fake_instance, fake_instance, fake_instance]"
    by (simp add: DescribeContainerInstances_def fake_ecs_def)
  have "snd (MeasureCluster fake_ecs source_order (\<lambda>n. n) 0 ''fake-ecs-cluster'') =
      snd (task_footprint fake_ecs ''fake-ecs-cluster'')
        @ ListContainerInstancesCall ''fake-ecs-cluster'' ''ACTIVE''
        # DescribeContainerInstancesCall ''fake-ecs-cluster'' (ListContainerInstances fake_ecs ''fake-ecs-cluster'')
        # capacity_calls 2560 3072 [fake_instance, fake_instance, fake_instance]"
    using MeasureCluster_measures [of fake_ecs "''fake-ecs-cluster''" source_order "\<lambda>n. n" 0] f c
    by simp
  then have m: "ContainersPossibleCall 2560 3072 (RegisteredResources fake_instance)
     \<in> set (snd (MeasureCluster fake_ecs source_order (\<lambda>n. n) 0 ''fake-ecs-cluster''))"
    by (simp add: capacity_calls_def)
  show ?thesis
    using m ContainersPossible_invoked_with_positive_footprint
      [of fake_ecs source_order "\<lambda>n. n" 0 "''fake-ecs-cluster''"]
    by blast
qed

section \<open>Converting a ledger to metric points\<close>

lemma mset_concat_map_cong:
  assumes "mset xs = mset ys" "\<And>x. mset (F x) = mset (G x)"
  shows "mset (concat (map F xs)) = mset (concat (map G ys))"
proof -
  have "mset (concat (map F xs)) = sum_mset (image_mset (\<lambda>x. mset (F x)) (mset xs))"
    by (induction xs) simp_all
  also have "\<dots> = sum_mset (image_mset (\<lambda>x. mset (G x)) (mset ys))"
    by (simp only: assms)
  also have "\<dots> = mset (concat (map G ys))"
    by (induction ys) simp_all
  finally show ?thesis .
qed

lemma ToMetricData_as_points:
  "fst (ToMetricData ro clock n cr h) =
     concat (map (\<lambda>x. map (\<lambda>y. point (Cluster cr) (clock n) (fst x) (fst y) (snd y))
                                  (inner_order ro (fst x) (cells h (snd x))))
                 (outer_order ro (Resources cr)))"
  by (simp add: ToMetricData_def time_Now_def point_def case_prod_unfold)

lemma mset_ToMetricData:
  assumes "range_permutes ro"
  shows "mset (fst (ToMetricData ro clock n cr h)) = mset (fst (ToMetricData source_order clock n cr h))"
  unfolding ToMetricData_as_points
  using assms
  by (intro mset_concat_map_cong) (simp_all add: range_permutes_def source_order_def)

lemma ToMetricData_timestamps:
  "d \<in> set (fst (ToMetricData ro clock n cr h)) \<Longrightarrow> Timestamp d = clock n"
  by (auto simp: ToMetricData_as_points point_def)

lemma ToMetricData_reads_once: "snd (ToMetricData ro clock n cr h) = Suc n"
  by (simp add: ToMetricData_def time_Now_def split_beta)

lemma range_permutes_source_order: "range_permutes source_order"
  by (simp add: range_permutes_def source_order_def)

lemma NewClusterResources_eq:
  "NewClusterResources cluster h0 =
     (\<lparr>Cluster = cluster,
       Resources = [(''LowestCommonMultipleCPU'', fresh h0),
                    (''LowestCommonMultipleMemory'', Suc (fresh h0)),
                    (''RegisteredSchedulable'', Suc (Suc (fresh h0))),
                    (''RemainingSchedulable'', Suc (Suc (Suc (fresh h0))))],
       CPU = fresh h0, Memory = Suc (fresh h0),
       Registered = Suc (Suc (fresh h0)), Remaining = Suc (Suc (Suc (fresh h0)))\<rparr>,
      \<lparr>cells = (cells h0)(fresh h0 := [], Suc (fresh h0) := [], Suc (Suc (fresh h0)) := [],
                 Suc (Suc (Suc (fresh h0))) := []),
       fresh = Suc (Suc (Suc (Suc (fresh h0))))\<rparr>)"
  by (simp add: NewClusterResources_def make_map_def)

lemmas ledger_eval = ledger_points_def NewClusterResources_eq record_instance_def
  map_assign_def map_add_assign_def map_index_def ToMetricData_as_points source_order_def

lemma one_type_source_order:
  "ledger_points source_order clock n cluster h0 [(t, c, m, r, q)] =
     [point cluster (clock n) ''LowestCommonMultipleCPU'' t c,
      point cluster (clock n) ''LowestCommonMultipleMemory'' t m,
      point cluster (clock n) ''RegisteredSchedulable'' t r,
      point cluster (clock n) ''RemainingSchedulable'' t q]"
  by (simp add: ledger_eval)

lemma two_types_source_order:
  "t1 \<noteq> t2 \<Longrightarrow>
   ledger_points source_order clock n cluster h0 [(t1, c1, m1, r1, q1), (t2, c2, m2, r2, q2)] =
     [point cluster (clock n) ''LowestCommonMultipleCPU'' t1 c1,
      point cluster (clock n) ''LowestCommonMultipleCPU'' t2 c2,
      point cluster (clock n) ''LowestCommonMultipleMemory'' t1 m1,
      point cluster (clock n) ''LowestCommonMultipleMemory'' t2 m2,
      point cluster (clock n) ''RegisteredSchedulable'' t1 r1,
      point cluster (clock n) ''RegisteredSchedulable'' t2 r2,
      point cluster (clock n) ''RemainingSchedulable'' t1 q1,
      point cluster (clock n) ''RemainingSchedulable'' t2 q2]"
  by (simp add: ledger_eval)

lemma mset_ledger_points:
  "range_permutes ro \<Longrightarrow>
   mset (ledger_points ro clock n cluster h0 recs) =
     mset (ledger_points source_order clock n cluster h0 recs)"
  by (simp add: ledger_points_def split_beta mset_ToMetricData)

lemma go_quo_fake:
  "go_quo 8192 2560 = 3" "go_quo 15468 3072 = 5" "go_quo 5632 2560 = 2" "go_quo 12396 3072 = 4"
  by (simp_all add: go_quo_def signed_divide_int_def)

lemma fake_counts:
  "capacity_count 2560 3072 (RegisteredResources fake_instance) = 3"
  "capacity_count 2560 3072 (RemainingResources fake_instance) = 2"
  by (simp_all add: capacity_count_def capacity_by_def fake_instance_def go_quo_fake go_min_def
      word_sle_eq)

lemma fake_containers:
  "DescribeContainerInstances fake_ecs ''fake-ecs-cluster''
     (ListContainerInstances fake_ecs ''fake-ecs-cluster'') =
       [fake_instance, fake_instance, fake_instance]"
  by (simp add: DescribeContainerInstances_def fake_ecs_def)

lemma fake_measurement:
  "fst (MeasureCluster fake_ecs source_order clock n ''fake-ecs-cluster'') =
     Inr [point ''fake-ecs-cluster'' (clock n) ''LowestCommonMultipleCPU'' ''fake.2xlarge'' 2560,
          point ''fake-ecs-cluster'' (clock n) ''LowestCommonMultipleMemory'' ''fake.2xlarge'' 3072,
          point ''fake-ecs-cluster'' (clock n) ''RegisteredSchedulable'' ''fake.2xlarge'' 9,
          point ''fake-ecs-cluster'' (clock n) ''RemainingSchedulable'' ''fake.2xlarge'' 6]"
proof -
  have f: "fst (task_footprint fake_ecs ''fake-ecs-cluster'') = (2560, 3072)"
    by (rule fake_footprint)
  have t: "getInstanceType (Attributes fake_instance) = ''fake.2xlarge''"
    by (simp add: fake_instance_def)
  show ?thesis
    using MeasureCluster_measures [of fake_ecs "''fake-ecs-cluster''" source_order clock n]
    by (simp add: f fake_containers record_all_def fake_counts t NewClusterResources_eq empty_heap_def
        record_instance_def map_assign_def map_add_assign_def map_index_def
        ToMetricData_as_points source_order_def)
qed

lemma one_type_mset:
  assumes "range_permutes ro"
  shows "mset (ledger_points ro clock n cluster h0 [(t, 1024, 2048, 13, 3)]) =
      mset [point cluster (clock n) ''LowestCommonMultipleCPU'' t 1024,
            point cluster (clock n) ''LowestCommonMultipleMemory'' t 2048,
            point cluster (clock n) ''RegisteredSchedulable'' t 13,
            point cluster (clock n) ''RemainingSchedulable'' t 3]"
    using mset_ledger_points [OF assms] by (simp only: one_type_source_order)

lemma one_type_length:
  assumes "range_permutes ro"
  shows "length (ledger_points ro clock n cluster h0 [(t, 1024, 2048, 13, 3)]) = 4"
    using mset_eq_length [OF one_type_mset [OF assms]] by simp

lemma one_type_set:
  assumes "range_permutes ro"
  shows "set (ledger_points ro clock n cluster h0 [(t, 1024, 2048, 13, 3)]) =
      {point cluster (clock n) ''LowestCommonMultipleCPU'' t 1024,
       point cluster (clock n) ''LowestCommonMultipleMemory'' t 2048,
       point cluster (clock n) ''RegisteredSchedulable'' t 13,
       point cluster (clock n) ''RemainingSchedulable'' t 3}"
    using mset_eq_setD [OF one_type_mset [OF assms]] by simp


lemma one_type_all:
  assumes "range_permutes ro" "clock n0 \<le> clock n"
  shows "\<forall>d \<in> set (ledger_points ro clock n cluster h0 [(t, 1024, 2048, 13, 3)]).
      Dimensions d = [\<lparr>Dimension_Name = ''ClusterName'', Dimension_Value = cluster\<rparr>,
                      \<lparr>Dimension_Name = ''InstanceType'', Dimension_Value = t\<rparr>]
      \<and> Unit d = ''Count'' \<and> clock n0 \<le> Timestamp d"
  using assms(2) by (simp add: one_type_set [OF assms(1)] point_def)

lemma two_types_mset:
  assumes "range_permutes ro" "t1 \<noteq> t2"
  shows "mset (ledger_points ro clock n cluster h0 [(t1, c1, m1, r1, q1), (t2, c2, m2, r2, q2)]) =
      mset [point cluster (clock n) ''LowestCommonMultipleCPU'' t1 c1,
            point cluster (clock n) ''LowestCommonMultipleCPU'' t2 c2,
            point cluster (clock n) ''LowestCommonMultipleMemory'' t1 m1,
            point cluster (clock n) ''LowestCommonMultipleMemory'' t2 m2,
            point cluster (clock n) ''RegisteredSchedulable'' t1 r1,
            point cluster (clock n) ''RegisteredSchedulable'' t2 r2,
            point cluster (clock n) ''RemainingSchedulable'' t1 q1,
            point cluster (clock n) ''RemainingSchedulable'' t2 q2]"
    using mset_ledger_points [OF assms(1)] two_types_source_order [OF assms(2)] by (simp only:)

lemma two_types_length:
  assumes "range_permutes ro" "t1 \<noteq> t2"
  shows "length (ledger_points ro clock n cluster h0 [(t1, c1, m1, r1, q1), (t2, c2, m2, r2, q2)]) = 8"
    using mset_eq_length [OF two_types_mset [OF assms]] by simp


text \<open>
  Claim C3: a fresh ledger for a cluster, one recording for an instance type (CPU
  footprint 1024, memory footprint 2048, registered count 13, remaining count 3), and the
  conversion give exactly four metric points, one for each category name; each has the
  two dimensions cluster name and instance type, the unit \<^verbatim>\<open>Count\<close>, the value recorded
  for its category, and a timestamp that is not earlier than a clock reading taken before
  the conversion (the clock being monotone). Two recordings for distinct instance types
  give eight points, each type with its own values.
\<close>

theorem ledger_round_trip:
  assumes "range_permutes ro" and "mono clock" and "n0 < n"
  shows
    "mset (ledger_points ro clock n cluster h0 [(t, 1024, 2048, 13, 3)]) =
       {#point cluster (clock n) ''LowestCommonMultipleCPU'' t 1024,
         point cluster (clock n) ''LowestCommonMultipleMemory'' t 2048,
         point cluster (clock n) ''RegisteredSchedulable'' t 13,
         point cluster (clock n) ''RemainingSchedulable'' t 3#}
     \<and> length (ledger_points ro clock n cluster h0 [(t, 1024, 2048, 13, 3)]) = 4
     \<and> (\<forall>d \<in> set (ledger_points ro clock n cluster h0 [(t, 1024, 2048, 13, 3)]).
          Dimensions d = [\<lparr>Dimension_Name = ''ClusterName'', Dimension_Value = cluster\<rparr>,
                          \<lparr>Dimension_Name = ''InstanceType'', Dimension_Value = t\<rparr>]
          \<and> Unit d = ''Count'' \<and> clock n0 \<le> Timestamp d)
     \<and> (t1 \<noteq> t2 \<longrightarrow>
          mset (ledger_points ro clock n cluster h0 [(t1, c1, m1, r1, q1), (t2, c2, m2, r2, q2)]) =
            {#point cluster (clock n) ''LowestCommonMultipleCPU'' t1 c1,
              point cluster (clock n) ''LowestCommonMultipleCPU'' t2 c2,
              point cluster (clock n) ''LowestCommonMultipleMemory'' t1 m1,
              point cluster (clock n) ''LowestCommonMultipleMemory'' t2 m2,
              point cluster (clock n) ''RegisteredSchedulable'' t1 r1,
              point cluster (clock n) ''RegisteredSchedulable'' t2 r2,
              point cluster (clock n) ''RemainingSchedulable'' t1 q1,
              point cluster (clock n) ''RemainingSchedulable'' t2 q2#}
          \<and> length (ledger_points ro clock n cluster h0
               [(t1, c1, m1, r1, q1), (t2, c2, m2, r2, q2)]) = 8)"
proof (intro conjI impI)
  have le: "clock n0 \<le> clock n"
    using assms(2,3) by (simp add: monoD)
  show "mset (ledger_points ro clock n cluster h0 [(t, 1024, 2048, 13, 3)]) =
       {#point cluster (clock n) ''LowestCommonMultipleCPU'' t 1024,
         point cluster (clock n) ''LowestCommonMultipleMemory'' t 2048,
         point cluster (clock n) ''RegisteredSchedulable'' t 13,
         point cluster (clock n) ''RemainingSchedulable'' t 3#}"
    by (simp only: one_type_mset [OF assms(1)] mset.simps)
  show "length (ledger_points ro clock n cluster h0 [(t, 1024, 2048, 13, 3)]) = 4"
    by (rule one_type_length [OF assms(1)])
  show "\<forall>d \<in> set (ledger_points ro clock n cluster h0 [(t, 1024, 2048, 13, 3)]).
          Dimensions d = [\<lparr>Dimension_Name = ''ClusterName'', Dimension_Value = cluster\<rparr>,
                          \<lparr>Dimension_Name = ''InstanceType'', Dimension_Value = t\<rparr>]
          \<and> Unit d = ''Count'' \<and> clock n0 \<le> Timestamp d"
    using assms(1) le by (rule one_type_all)
next
  assume ne: "t1 \<noteq> t2"
  show "mset (ledger_points ro clock n cluster h0 [(t1, c1, m1, r1, q1), (t2, c2, m2, r2, q2)]) =
            {#point cluster (clock n) ''LowestCommonMultipleCPU'' t1 c1,
              point cluster (clock n) ''LowestCommonMultipleCPU'' t2 c2,
              point cluster (clock n) ''LowestCommonMultipleMemory'' t1 m1,
              point cluster (clock n) ''LowestCommonMultipleMemory'' t2 m2,
              point cluster (clock n) ''RegisteredSchedulable'' t1 r1,
              point cluster (clock n) ''RegisteredSchedulable'' t2 r2,
              point cluster (clock n) ''RemainingSchedulable'' t1 q1,
              point cluster (clock n) ''RemainingSchedulable'' t2 q2#}"
    by (simp only: two_types_mset [OF assms(1) ne] mset.simps)
next
  assume ne: "t1 \<noteq> t2"
  show "length (ledger_points ro clock n cluster h0
               [(t1, c1, m1, r1, q1), (t2, c2, m2, r2, q2)]) = 8"
    by (rule two_types_length [OF assms(1) ne])
qed


theorem ledger_round_trip_witness:
  "range_permutes source_order \<and> mono (\<lambda>n :: nat. n) \<and> (0 :: nat) < 1
   \<and> mset (ledger_points source_order (\<lambda>n. n) 1 ''my-shiny-cluster'' empty_heap
        [(''my5.InstanceType'', 1024, 2048, 13, 3)]) =
       {#point ''my-shiny-cluster'' 1 ''LowestCommonMultipleCPU'' ''my5.InstanceType'' 1024,
         point ''my-shiny-cluster'' 1 ''LowestCommonMultipleMemory'' ''my5.InstanceType'' 2048,
         point ''my-shiny-cluster'' 1 ''RegisteredSchedulable'' ''my5.InstanceType'' 13,
         point ''my-shiny-cluster'' 1 ''RemainingSchedulable'' ''my5.InstanceType'' 3#}
   \<and> length (ledger_points source_order (\<lambda>n. n) 1 ''my-shiny-cluster'' empty_heap
        [(''my5.InstanceType'', 1024, 2048, 13, 3)]) = 4
   \<and> ''m5.large'' \<noteq> ''c5.xlarge''
   \<and> length (ledger_points source_order (\<lambda>n. n) 1 ''my-shiny-cluster'' empty_heap
        [(''m5.large'', 1024, 2048, 13, 3), (''c5.xlarge'', 1024, 2048, 7, 1)]) = 8"
proof -
  have m: "mono (\<lambda>n :: nat. n)" by (simp add: mono_def)
  have l: "(0 :: nat) < 1" by simp
  have ne: "''m5.large'' \<noteq> ''c5.xlarge''" by simp
  note w = ledger_round_trip [OF range_permutes_source_order m l,
        of "''my-shiny-cluster''" empty_heap "''my5.InstanceType''" "''m5.large''" "''c5.xlarge''"
           1024 2048 13 3 1024 2048 7 1]
  have two: "length (ledger_points source_order (\<lambda>n. n) 1 ''my-shiny-cluster'' empty_heap
        [(''m5.large'', 1024, 2048, 13, 3), (''c5.xlarge'', 1024, 2048, 7, 1)]) = 8"
    using w ne by blast
  show ?thesis
    using range_permutes_source_order m l w [THEN conjunct1] w [THEN conjunct2, THEN conjunct1] ne two
    by (intro conjI)
qed

text \<open>
  Claim C10: the conversion of a ledger takes one reading of the clock, and every metric
  point it produces carries that reading as its timestamp; so all the points that the
  measurement of one cluster returns have the same timestamp.
\<close>

theorem ToMetricData_single_timestamp:
  "(\<forall>d \<in> set (fst (ToMetricData ro clock n cr h)). Timestamp d = clock n)
   \<and> snd (ToMetricData ro clock n cr h) = Suc n
   \<and> (\<forall>ds. fst (MeasureCluster sn ro clock n cluster) = Inr ds \<longrightarrow>
        (\<forall>d \<in> set ds. Timestamp d = clock n)
        \<and> (\<forall>d \<in> set ds. \<forall>d' \<in> set ds. Timestamp d = Timestamp d'))"
proof -
  have a: "\<forall>d \<in> set (fst (ToMetricData ro clock n cr h)). Timestamp d = clock n"
    by (simp add: ToMetricData_timestamps)
  have b: "snd (ToMetricData ro clock n cr h) = Suc n"
    by (rule ToMetricData_reads_once)
  have c: "\<forall>d \<in> set ds. Timestamp d = clock n"
    if ds: "fst (MeasureCluster sn ro clock n cluster) = Inr ds" for ds
  proof (cases "fst (fst (task_footprint sn cluster)) = 0 \<or> snd (fst (task_footprint sn cluster)) = 0")
    case True
    then have "ds = []" using ds by (simp add: MeasureCluster_skips)
    then show ?thesis by simp
  next
    case False
    then have nz: "fst (fst (task_footprint sn cluster)) \<noteq> 0" "snd (fst (task_footprint sn cluster)) \<noteq> 0"
      by simp_all
    have "\<exists>cr' h'. ds = fst (ToMetricData ro clock n cr' h')"
      using ds unfolding MeasureCluster_measures [OF nz] by auto
    then show ?thesis by (auto simp: ToMetricData_timestamps)
  qed
  show ?thesis using a b c by simp
qed


theorem ToMetricData_single_timestamp_witness:
  "fst (MeasureCluster fake_ecs source_order (\<lambda>n. 1500000000 + n) 7 ''fake-ecs-cluster'') =
     Inr [point ''fake-ecs-cluster'' 1500000007 ''LowestCommonMultipleCPU'' ''fake.2xlarge'' 2560,
          point ''fake-ecs-cluster'' 1500000007 ''LowestCommonMultipleMemory'' ''fake.2xlarge'' 3072,
          point ''fake-ecs-cluster'' 1500000007 ''RegisteredSchedulable'' ''fake.2xlarge'' 9,
          point ''fake-ecs-cluster'' 1500000007 ''RemainingSchedulable'' ''fake.2xlarge'' 6]
   \<and> Timestamp (point ''fake-ecs-cluster'' 1500000007 ''LowestCommonMultipleCPU'' ''fake.2xlarge'' 2560)
       = Timestamp (point ''fake-ecs-cluster'' 1500000007 ''RemainingSchedulable'' ''fake.2xlarge'' 6)
   \<and> Timestamp (point ''fake-ecs-cluster'' 1500000007 ''RegisteredSchedulable'' ''fake.2xlarge'' 9)
       = 1500000007"
proof -
  let ?ds = "[point ''fake-ecs-cluster'' 1500000007 ''LowestCommonMultipleCPU'' ''fake.2xlarge'' 2560,
          point ''fake-ecs-cluster'' 1500000007 ''LowestCommonMultipleMemory'' ''fake.2xlarge'' 3072,
          point ''fake-ecs-cluster'' 1500000007 ''RegisteredSchedulable'' ''fake.2xlarge'' 9,
          point ''fake-ecs-cluster'' 1500000007 ''RemainingSchedulable'' ''fake.2xlarge'' 6]"
  have e: "fst (MeasureCluster fake_ecs source_order (\<lambda>n. 1500000000 + n) 7 ''fake-ecs-cluster'') = Inr ?ds"
    using fake_measurement [of "\<lambda>n. 1500000000 + n" 7] by simp
  have "\<forall>d \<in> set ?ds. Timestamp d = 1500000000 + 7"
    using ToMetricData_single_timestamp [of source_order "\<lambda>n. 1500000000 + n" 7
        "fst (NewClusterResources ''fake-ecs-cluster'' empty_heap)"
        "snd (NewClusterResources ''fake-ecs-cluster'' empty_heap)"
        fake_ecs "''fake-ecs-cluster''"] e
    by blast
  then have "\<forall>d \<in> set ?ds. Timestamp d = 1500000007"
    by (simp only: numeral_plus_numeral) simp
  then show ?thesis using e by simp
qed

section \<open>Clusters that are skipped, and clusters that are not\<close>

lemma unparseable_footprint:
  "fst (task_footprint unparseable_ecs ''fake-ecs-cluster'') =
     (9223372036854775807, 9223372036854775807)"
  by (simp add: task_footprint_def DiscoverTasks_def unparseable_ecs_def fake_ecs_def
      MeasureResources_def Atoi_eval word_sless_alt)

lemma unparseable_described:
  "described_tasks unparseable_ecs ''fake-ecs-cluster'' =
     [\<lparr>Task_Cpu = ''99999999999999999999'', Task_Memory = ''99999999999999999999''\<rparr>]"
  by (simp add: described_tasks_def DiscoverTasks_def unparseable_ecs_def fake_ecs_def)

lemma go_quo_by_max:
  "go_quo 8192 9223372036854775807 = 0" "go_quo 15468 9223372036854775807 = 0"
  "go_quo 5632 9223372036854775807 = 0" "go_quo 12396 9223372036854775807 = 0"
  by (simp_all add: go_quo_def signed_divide_int_def)

lemma unparseable_counts:
  "capacity_count 9223372036854775807 9223372036854775807 (RegisteredResources fake_instance) = 0"
  "capacity_count 9223372036854775807 9223372036854775807 (RemainingResources fake_instance) = 0"
  by (simp_all add: capacity_count_def capacity_by_def fake_instance_def go_quo_by_max go_min_def
      word_sle_eq)

lemma unparseable_measurement:
  "MeasureCluster unparseable_ecs source_order clock n ''fake-ecs-cluster'' =
     (Inr [point ''fake-ecs-cluster'' (clock n) ''LowestCommonMultipleCPU'' ''fake.2xlarge''
             9223372036854775807,
           point ''fake-ecs-cluster'' (clock n) ''LowestCommonMultipleMemory'' ''fake.2xlarge''
             9223372036854775807,
           point ''fake-ecs-cluster'' (clock n) ''RegisteredSchedulable'' ''fake.2xlarge'' 0,
           point ''fake-ecs-cluster'' (clock n) ''RemainingSchedulable'' ''fake.2xlarge'' 0],
      [ListTasksPagesCall ''fake-ecs-cluster'',
       DescribeTasksCall ''fake-ecs-cluster'' [''task/1394beef'', ''task/6649bf9d'', ''task/b9cfa5da''],
       ListContainerInstancesCall ''fake-ecs-cluster'' ''ACTIVE'',
       DescribeContainerInstancesCall ''fake-ecs-cluster''
         [''container-instance/30ed79a6'', ''container-instance/31b326d2'',
          ''container-instance/4c684147''],
       ContainersPossibleCall 9223372036854775807 9223372036854775807 (RegisteredResources fake_instance),
       ContainersPossibleCall 9223372036854775807 9223372036854775807 (RemainingResources fake_instance),
       ContainersPossibleCall 9223372036854775807 9223372036854775807 (RegisteredResources fake_instance),
       ContainersPossibleCall 9223372036854775807 9223372036854775807 (RemainingResources fake_instance),
       ContainersPossibleCall 9223372036854775807 9223372036854775807 (RegisteredResources fake_instance),
       ContainersPossibleCall 9223372036854775807 9223372036854775807 (RemainingResources fake_instance)])"
proof -
  have f: "fst (task_footprint unparseable_ecs ''fake-ecs-cluster'') =
      (9223372036854775807, 9223372036854775807)"
    by (rule unparseable_footprint)
  have c: "DescribeContainerInstances unparseable_ecs ''fake-ecs-cluster''
      [''container-instance/30ed79a6'', ''container-instance/31b326d2'',
       ''container-instance/4c684147''] =
       [fake_instance, fake_instance, fake_instance]"
    by (simp add: DescribeContainerInstances_def unparseable_ecs_def fake_ecs_def)
  have l: "ListContainerInstances unparseable_ecs ''fake-ecs-cluster'' =
      [''container-instance/30ed79a6'', ''container-instance/31b326d2'', ''container-instance/4c684147'']"
    by (simp add: ListContainerInstances_def unparseable_ecs_def fake_ecs_def)
  have d: "DiscoverTasks unparseable_ecs ''fake-ecs-cluster'' =
      [[''task/1394beef'', ''task/6649bf9d'', ''task/b9cfa5da'']]"
    by (simp add: DiscoverTasks_def unparseable_ecs_def fake_ecs_def)
  have t: "getInstanceType (Attributes fake_instance) = ''fake.2xlarge''"
    by (simp add: fake_instance_def)
  show ?thesis
    using MeasureCluster_measures [of unparseable_ecs "''fake-ecs-cluster''" source_order clock n]
    by (simp add: f c l d task_footprint_trace capacity_calls_def record_all_def unparseable_counts t
        NewClusterResources_eq empty_heap_def
        record_instance_def map_assign_def map_add_assign_def map_index_def
        ToMetricData_as_points source_order_def)
qed

text \<open>
  Claim C4, as stated, counts a cluster whose task values all fail to parse among the
  clusters with a zero maximum. A digit string beyond the 64-bit range fails to parse with
  a range error, and \<^verbatim>\<open>Atoi\<close> returns the largest \<^verbatim>\<open>int\<close> with it. A cluster whose only
  described task has such a CPU value and such a memory value ends the footprint phase
  with both maxima at that bound; \<^verbatim>\<open>MeasureCluster\<close> lists and describes its container
  instances and returns four metric points.
\<close>

theorem MeasureCluster_range_errors_not_skipped:
  "snd (Atoi ''99999999999999999999'') = Some ErrRange
   \<and> \<not> parses ''99999999999999999999''
   \<and> described_tasks unparseable_ecs ''fake-ecs-cluster'' =
       [\<lparr>Task_Cpu = ''99999999999999999999'', Task_Memory = ''99999999999999999999''\<rparr>]
   \<and> fst (task_footprint unparseable_ecs ''fake-ecs-cluster'') =
       (9223372036854775807, 9223372036854775807)
   \<and> fst (MeasureCluster unparseable_ecs source_order epoch_clock 0 ''fake-ecs-cluster'') =
       Inr [point ''fake-ecs-cluster'' (epoch_clock 0) ''LowestCommonMultipleCPU'' ''fake.2xlarge''
              9223372036854775807,
            point ''fake-ecs-cluster'' (epoch_clock 0) ''LowestCommonMultipleMemory'' ''fake.2xlarge''
              9223372036854775807,
            point ''fake-ecs-cluster'' (epoch_clock 0) ''RegisteredSchedulable'' ''fake.2xlarge'' 0,
            point ''fake-ecs-cluster'' (epoch_clock 0) ''RemainingSchedulable'' ''fake.2xlarge'' 0]
   \<and> fst (MeasureCluster unparseable_ecs source_order epoch_clock 0 ''fake-ecs-cluster'') \<noteq> Inr []
   \<and> ListContainerInstancesCall ''fake-ecs-cluster'' ''ACTIVE''
       \<in> set (snd (MeasureCluster unparseable_ecs source_order epoch_clock 0 ''fake-ecs-cluster''))
   \<and> DescribeContainerInstancesCall ''fake-ecs-cluster''
         [''container-instance/30ed79a6'', ''container-instance/31b326d2'',
          ''container-instance/4c684147'']
       \<in> set (snd (MeasureCluster unparseable_ecs source_order epoch_clock 0 ''fake-ecs-cluster''))"
  using unparseable_described unparseable_footprint
  by (simp add: unparseable_measurement parses_def Atoi_eval)

text \<open>
  Claim C4, amended: when the task-footprint phase of a cluster ends with either running
  maximum equal to zero, \<^verbatim>\<open>MeasureCluster\<close> returns the empty list of metric points, and
  its provider calls are those of the footprint phase alone: it neither lists nor
  describes container instances and never invokes the capacity calculator. A maximum is
  zero when no task was described, and when every described task has a value that
  \<^verbatim>\<open>Atoi\<close> rejects with a syntax error (a string that is not a decimal integer); a value
  rejected with a range error is not covered.
\<close>

theorem MeasureCluster_empty_cluster:
  "(fst (fst (task_footprint sn cluster)) = 0 \<or> snd (fst (task_footprint sn cluster)) = 0 \<longrightarrow>
      fst (MeasureCluster sn ro clock n cluster) = Inr []
      \<and> snd (MeasureCluster sn ro clock n cluster) =
          ListTasksPagesCall cluster # map (DescribeTasksCall cluster) (DiscoverTasks sn cluster)
      \<and> list_all (\<lambda>e. \<not> container_instance_call e) (snd (MeasureCluster sn ro clock n cluster)))
   \<and> ((\<forall>t \<in> set (described_tasks sn cluster). snd (Atoi (Task_Cpu t)) = Some ErrSyntax) \<longrightarrow>
        fst (fst (task_footprint sn cluster)) = 0)
   \<and> ((\<forall>t \<in> set (described_tasks sn cluster). snd (Atoi (Task_Memory t)) = Some ErrSyntax) \<longrightarrow>
        snd (fst (task_footprint sn cluster)) = 0)"
proof (intro conjI impI)
  assume z: "fst (fst (task_footprint sn cluster)) = 0 \<or> snd (fst (task_footprint sn cluster)) = 0"
  then have mc: "MeasureCluster sn ro clock n cluster = (Inr [], snd (task_footprint sn cluster))"
    by (rule MeasureCluster_skips)
  show "fst (MeasureCluster sn ro clock n cluster) = Inr []"
    by (simp add: mc)
  show "snd (MeasureCluster sn ro clock n cluster) =
      ListTasksPagesCall cluster # map (DescribeTasksCall cluster) (DiscoverTasks sn cluster)"
    by (simp add: mc task_footprint_trace)
  show "list_all (\<lambda>e. \<not> container_instance_call e) (snd (MeasureCluster sn ro clock n cluster))"
    by (simp add: mc task_footprint_trace list_all_iff)
next
  assume "\<forall>t \<in> set (described_tasks sn cluster). snd (Atoi (Task_Cpu t)) = Some ErrSyntax"
  then have "max_seen Task_Cpu (described_tasks sn cluster) = 0"
    by (rule max_seen_all_syntax_errors)
  then show "fst (fst (task_footprint sn cluster)) = 0"
    using task_footprint_max(1) [of sn cluster] by (simp add: sint_eq_0)
next
  assume "\<forall>t \<in> set (described_tasks sn cluster). snd (Atoi (Task_Memory t)) = Some ErrSyntax"
  then have "max_seen Task_Memory (described_tasks sn cluster) = 0"
    by (rule max_seen_all_syntax_errors)
  then show "snd (fst (task_footprint sn cluster)) = 0"
    using task_footprint_max(2) [of sn cluster] by (simp add: sint_eq_0)
qed

theorem MeasureCluster_empty_cluster_witness:
  "described_tasks empty_ecs ''this cluster does not exist'' = []
   \<and> fst (task_footprint empty_ecs ''this cluster does not exist'') = (0, 0)
   \<and> MeasureCluster empty_ecs source_order (\<lambda>n. n) 0 ''this cluster does not exist'' =
       (Inr [], [ListTasksPagesCall ''this cluster does not exist'',
                 DescribeTasksCall ''this cluster does not exist'' []])"
proof -
  have d: "described_tasks empty_ecs ''this cluster does not exist'' = []"
    by (simp add: described_tasks_def DiscoverTasks_def empty_ecs_def fake_ecs_def)
  have p: "DiscoverTasks empty_ecs ''this cluster does not exist'' = [[]]"
    by (simp add: DiscoverTasks_def empty_ecs_def fake_ecs_def)
  have f: "fst (fst (task_footprint empty_ecs ''this cluster does not exist'')) = 0"
    using MeasureCluster_empty_cluster [of empty_ecs "''this cluster does not exist''" source_order "\<lambda>n. n" 0] d
    by simp
  have m: "snd (fst (task_footprint empty_ecs ''this cluster does not exist'')) = 0"
    using MeasureCluster_empty_cluster [of empty_ecs "''this cluster does not exist''" source_order "\<lambda>n. n" 0] d
    by simp
  have "fst (MeasureCluster empty_ecs source_order (\<lambda>n. n) 0 ''this cluster does not exist'') = Inr []
      \<and> snd (MeasureCluster empty_ecs source_order (\<lambda>n. n) 0 ''this cluster does not exist'') =
          [ListTasksPagesCall ''this cluster does not exist'',
           DescribeTasksCall ''this cluster does not exist'' []]"
    using MeasureCluster_empty_cluster [of empty_ecs "''this cluster does not exist''" source_order "\<lambda>n. n" 0] f p
    by simp
  then show ?thesis using d f m by (simp add: prod_eq_iff)
qed

section \<open>The keys of the ledger\<close>

lemma keys_map_assign:
  "keys (map_assign r k v h) r' = (if r' = r then insert k (keys h r) else keys h r')"
  by (simp add: keys_def map_assign_def dom_update)

lemma keys_map_add_assign:
  "keys (map_add_assign r k v h) r' = (if r' = r then insert k (keys h r) else keys h r')"
  by (simp add: map_add_assign_def keys_map_assign)

lemma keys_record_instance:
  assumes "distinct [CPU cr, Memory cr, Registered cr, Remaining cr]"
    and "r \<in> {CPU cr, Memory cr, Registered cr, Remaining cr}"
  shows "keys (record_instance cr t c m reg rem h) r = insert t (keys h r)"
  using assms by (auto simp: record_instance_def keys_map_assign keys_map_add_assign)

lemma DescribeResourcesByInstanceType_loop_keys:
  assumes "distinct [CPU cr, Memory cr, Registered cr, Remaining cr]"
    and "r \<in> {CPU cr, Memory cr, Registered cr, Remaining cr}"
  shows "DescribeResourcesByInstanceType_loop cr cpu memory cs h tr = (Inr h', tr') \<Longrightarrow>
    keys h' r = keys h r \<union> instance_types cs"
proof (induction cs arbitrary: h tr)
  case Nil
  then show ?case by (simp add: instance_types_def)
next
  case (Cons c cs)
  let ?t = "getInstanceType (Attributes c)"
  from Cons.prems obtain reg rem where
    reg: "ContainersPossible cpu memory (RegisteredResources c) = Inr reg" and
    rem: "ContainersPossible cpu memory (RemainingResources c) = Inr rem" and
    rest: "DescribeResourcesByInstanceType_loop cr cpu memory cs
        (record_instance cr ?t cpu memory reg rem h)
        (tr @ [ContainersPossibleCall cpu memory (RegisteredResources c),
               ContainersPossibleCall cpu memory (RemainingResources c)]) = (Inr h', tr')"
    by (auto simp: Let_def record_instance_def split: sum.splits)
  have "keys h' r = keys (record_instance cr ?t cpu memory reg rem h) r \<union> instance_types cs"
    using rest by (rule Cons.IH)
  then show ?case
    using keys_record_instance [OF assms] by (simp add: instance_types_def)
qed

lemma NewClusterResources_refs:
  "NewClusterResources cluster h0 = (cr, h) \<Longrightarrow>
     distinct [CPU cr, Memory cr, Registered cr, Remaining cr]
     \<and> keys h (CPU cr) = {} \<and> keys h (Memory cr) = {}
     \<and> keys h (Registered cr) = {} \<and> keys h (Remaining cr) = {}"
  by (auto simp: NewClusterResources_eq keys_def)


text \<open>
  Claim C8: when the capacity phase has processed a sequence of container instances on a
  fresh ledger, each of the four mappings (CPU footprint, memory footprint, registered
  capacity, remaining capacity) has exactly the instance types of those container
  instances as its keys; so a label that is a key of one of them is a key of all four.
  With a non-zero footprint the phase always runs to its end.
\<close>

theorem ledger_keys_complete:
  "NewClusterResources cluster h0 = (cr, h) \<longrightarrow>
     (cpu \<noteq> 0 \<and> memory \<noteq> 0 \<longrightarrow>
        (\<exists>h' tr'. DescribeResourcesByInstanceType_loop cr cpu memory containers h tr = (Inr h', tr')))
     \<and> (\<forall>h' tr'. DescribeResourcesByInstanceType_loop cr cpu memory containers h tr = (Inr h', tr') \<longrightarrow>
          keys h' (CPU cr) = instance_types containers
          \<and> keys h' (Memory cr) = instance_types containers
          \<and> keys h' (Registered cr) = instance_types containers
          \<and> keys h' (Remaining cr) = instance_types containers
          \<and> (\<forall>t. t \<in> keys h' (CPU cr) \<union> keys h' (Memory cr)
                      \<union> keys h' (Registered cr) \<union> keys h' (Remaining cr) \<longrightarrow>
                 t \<in> keys h' (CPU cr) \<inter> keys h' (Memory cr)
                      \<inter> keys h' (Registered cr) \<inter> keys h' (Remaining cr)))"
proof (intro impI conjI allI)
  assume "cpu \<noteq> 0 \<and> memory \<noteq> 0"
  then show "\<exists>h' tr'. DescribeResourcesByInstanceType_loop cr cpu memory containers h tr = (Inr h', tr')"
    by (simp add: DescribeResourcesByInstanceType_loop_total)
next
  fix h' tr'
  assume new: "NewClusterResources cluster h0 = (cr, h)"
    and run: "DescribeResourcesByInstanceType_loop cr cpu memory containers h tr = (Inr h', tr')"
  have d: "distinct [CPU cr, Memory cr, Registered cr, Remaining cr]"
    and e: "keys h (CPU cr) = {}" "keys h (Memory cr) = {}"
      "keys h (Registered cr) = {}" "keys h (Remaining cr) = {}"
    using NewClusterResources_refs [OF new] by simp_all
  show c: "keys h' (CPU cr) = instance_types containers"
    using DescribeResourcesByInstanceType_loop_keys [OF d _ run, of "CPU cr"] e by simp
  show m: "keys h' (Memory cr) = instance_types containers"
    using DescribeResourcesByInstanceType_loop_keys [OF d _ run, of "Memory cr"] e by simp
  show g: "keys h' (Registered cr) = instance_types containers"
    using DescribeResourcesByInstanceType_loop_keys [OF d _ run, of "Registered cr"] e by simp
  show r: "keys h' (Remaining cr) = instance_types containers"
    using DescribeResourcesByInstanceType_loop_keys [OF d _ run, of "Remaining cr"] e by simp
  fix t
  assume "t \<in> keys h' (CPU cr) \<union> keys h' (Memory cr)
      \<union> keys h' (Registered cr) \<union> keys h' (Remaining cr)"
  then show "t \<in> keys h' (CPU cr) \<inter> keys h' (Memory cr)
      \<inter> keys h' (Registered cr) \<inter> keys h' (Remaining cr)"
    by (simp add: c m g r)
qed

theorem ledger_keys_complete_witness:
  "NewClusterResources ''fake-ecs-cluster'' empty_heap =
     (fst (NewClusterResources ''fake-ecs-cluster'' empty_heap),
      snd (NewClusterResources ''fake-ecs-cluster'' empty_heap))
   \<and> (2560 :: go_int) \<noteq> 0 \<and> (3072 :: go_int) \<noteq> 0
   \<and> DescribeResourcesByInstanceType_loop (fst (NewClusterResources ''fake-ecs-cluster'' empty_heap))
        2560 3072 [fake_instance, fake_instance, fake_instance]
        (snd (NewClusterResources ''fake-ecs-cluster'' empty_heap)) [] =
       (Inr (record_all (fst (NewClusterResources ''fake-ecs-cluster'' empty_heap)) 2560 3072
              [fake_instance, fake_instance, fake_instance]
              (snd (NewClusterResources ''fake-ecs-cluster'' empty_heap))),
        capacity_calls 2560 3072 [fake_instance, fake_instance, fake_instance])
   \<and> keys (record_all (fst (NewClusterResources ''fake-ecs-cluster'' empty_heap)) 2560 3072
              [fake_instance, fake_instance, fake_instance]
              (snd (NewClusterResources ''fake-ecs-cluster'' empty_heap)))
          (Registered (fst (NewClusterResources ''fake-ecs-cluster'' empty_heap))) = {''fake.2xlarge''}
   \<and> ''fake.2xlarge'' \<in> keys (record_all (fst (NewClusterResources ''fake-ecs-cluster'' empty_heap)) 2560 3072
              [fake_instance, fake_instance, fake_instance]
              (snd (NewClusterResources ''fake-ecs-cluster'' empty_heap)))
          (CPU (fst (NewClusterResources ''fake-ecs-cluster'' empty_heap)))"
proof -
  let ?cr = "fst (NewClusterResources ''fake-ecs-cluster'' empty_heap)"
  let ?h = "snd (NewClusterResources ''fake-ecs-cluster'' empty_heap)"
  let ?cs = "[fake_instance, fake_instance, fake_instance]"
  have new: "NewClusterResources ''fake-ecs-cluster'' empty_heap = (?cr, ?h)"
    by simp
  have run: "DescribeResourcesByInstanceType_loop ?cr 2560 3072 ?cs ?h [] =
      (Inr (record_all ?cr 2560 3072 ?cs ?h), capacity_calls 2560 3072 ?cs)"
    using DescribeResourcesByInstanceType_loop_total [of 2560 3072 ?cr ?cs ?h "[]"]
    by (simp del: DescribeResourcesByInstanceType_loop.simps)
  have types: "instance_types ?cs = {''fake.2xlarge''}"
    by (simp add: instance_types_def fake_instance_def)
  have k: "keys (record_all ?cr 2560 3072 ?cs ?h) (Registered ?cr) = instance_types ?cs
      \<and> keys (record_all ?cr 2560 3072 ?cs ?h) (CPU ?cr) = instance_types ?cs"
    using ledger_keys_complete [of "''fake-ecs-cluster''" empty_heap ?cr ?h 2560 3072 ?cs "[]"] new run
    by blast
  show ?thesis
    using new run k types by (simp del: DescribeResourcesByInstanceType_loop.simps)
qed

section \<open>The values of the metric points\<close>

lemma capacity_by_relevant:
  "name = ''CPU'' \<or> name = ''MEMORY'' \<Longrightarrow> capacity_by name unit (relevant rs) = capacity_by name unit rs"
  by (induction rs) (auto simp: capacity_by_def relevant_def)

lemma capacity_int_le_total:
  "nonneg_resources (relevant rs) \<Longrightarrow> 0 <s unit \<Longrightarrow>
   capacity_int name unit (relevant rs) \<le> resource_total rs"
proof (induction rs)
  case Nil
  then show ?case by (simp add: capacity_int_def relevant_def resource_total_def)
next
  case (Cons r rs)
  show ?case
  proof (cases "Resource_Name r = ''CPU'' \<or> Resource_Name r = ''MEMORY''")
    case False
    then have "relevant (r # rs) = relevant rs" by (simp add: relevant_def)
    then show ?thesis using Cons by (simp add: resource_total_def)
  next
    case True
    then have rel: "relevant (r # rs) = r # relevant rs" by (simp add: relevant_def)
    have nn: "nonneg_resources (relevant rs)" and r: "0 \<le>s IntegerValue r"
      using Cons.prems(1) rel by (simp_all add: nonneg_resources_def)
    have ih: "capacity_int name unit (relevant rs) \<le> resource_total rs"
      using Cons.IH [OF nn Cons.prems(2)] .
    have x: "0 \<le> sint (IntegerValue r)" and u: "0 < sint unit"
      using r Cons.prems(2) by (simp_all add: word_sle_eq word_sless_alt)
    have q: "sint (IntegerValue r) div sint unit \<le> sint (IntegerValue r)"
      using zdiv_mono2 [of "sint (IntegerValue r)" 1 "sint unit"] x u by simp
    have tot: "resource_total (r # rs) = sint (IntegerValue r) + resource_total rs"
      using rel by (simp add: resource_total_def)
    show ?thesis
    proof (cases "Resource_Name r = name")
      case True
      then have "capacity_int name unit (relevant (r # rs)) =
          sint (IntegerValue r) div sint unit + capacity_int name unit (relevant rs)"
        using rel by (simp add: capacity_int_def)
      then show ?thesis using q ih tot by linarith
    next
      case False
      then have "capacity_int name unit (relevant (r # rs)) = capacity_int name unit (relevant rs)"
        using rel by (simp add: capacity_int_def)
      then show ?thesis using x ih tot by linarith
    qed
  qed
qed

lemma capacity_count_bounds:
  assumes "nonneg_resources (relevant rs)" "0 <s cpu" "0 <s memory" "resource_total rs < 2 ^ 63"
  shows "0 \<le> sint (capacity_count cpu memory rs)" "sint (capacity_count cpu memory rs) \<le> resource_total rs"
proof -
  have c: "capacity_int ''CPU'' cpu (relevant rs) \<le> resource_total rs"
    and m: "capacity_int ''MEMORY'' memory (relevant rs) \<le> resource_total rs"
    using assms by (simp_all add: capacity_int_le_total)
  have c0: "0 \<le> capacity_int ''CPU'' cpu (relevant rs)"
    and m0: "0 \<le> capacity_int ''MEMORY'' memory (relevant rs)"
    using assms by (simp_all add: capacity_int_nonneg)
  have sc: "sint (capacity_by ''CPU'' cpu rs) = capacity_int ''CPU'' cpu (relevant rs)"
    using sint_capacity_by [of "relevant rs" cpu "''CPU''"] assms c
    by (simp add: capacity_by_relevant)
  have sm: "sint (capacity_by ''MEMORY'' memory rs) = capacity_int ''MEMORY'' memory (relevant rs)"
    using sint_capacity_by [of "relevant rs" memory "''MEMORY''"] assms m
    by (simp add: capacity_by_relevant)
  show "0 \<le> sint (capacity_count cpu memory rs)"
    using c0 m0 by (simp add: capacity_count_def sint_go_min sc sm)
  show "sint (capacity_count cpu memory rs) \<le> resource_total rs"
    using c m by (simp add: capacity_count_def sint_go_min sc sm)
qed


lemma values_sum_nonneg: "nonneg_values m \<Longrightarrow> 0 \<le> values_sum m"
  by (induction m) (simp_all add: nonneg_values_def values_sum_def word_sle_eq)

lemma update_add_values:
  assumes "nonneg_values m" "0 \<le> sint d" "values_sum m + sint d < 2 ^ 63"
  shows "nonneg_values (AList.update k (map_index m k + d) m)
     \<and> values_sum (AList.update k (map_index m k + d) m) = values_sum m + sint d"
  using assms
proof (induction m)
  case Nil
  then show ?case
    by (simp add: nonneg_values_def values_sum_def map_index_def word_sle_eq)
next
  case (Cons e m)
  have e0: "0 \<le> sint (snd e)" and nm: "nonneg_values m"
    using Cons.prems(1) by (simp_all add: nonneg_values_def word_sle_eq)
  have m0: "0 \<le> values_sum m" using nm by (rule values_sum_nonneg)
  have sum: "values_sum (e # m) = sint (snd e) + values_sum m"
    by (simp add: values_sum_def)
  show ?case
  proof (cases "fst e = k")
    case True
    have idx: "map_index (e # m) k = snd e"
      using True by (cases e) (simp add: map_index_def)
    have add: "sint (snd e + d) = sint (snd e) + sint d"
      using sint_add_no_overflow [of "snd e" d] e0 Cons.prems(2,3) m0 sum by simp
    show ?thesis
      using add e0 Cons.prems(2) nm sum True
      by (simp add: idx nonneg_values_def values_sum_def word_sle_eq)
  next
    case False
    have idx: "map_index (e # m) k = map_index m k"
      using False by (cases e) (simp add: map_index_def)
    have "values_sum m + sint d < 2 ^ 63"
      using Cons.prems(3) e0 sum by simp
    then have ih: "nonneg_values (AList.update k (map_index m k + d) m)
        \<and> values_sum (AList.update k (map_index m k + d) m) = values_sum m + sint d"
      using Cons.IH [OF nm Cons.prems(2)] by simp
    show ?thesis
      using ih e0 sum False
      by (simp add: idx nonneg_values_def values_sum_def word_sle_eq)
  qed
qed

lemma update_const_nonneg:
  "nonneg_values m \<Longrightarrow> 0 \<le>s v \<Longrightarrow> nonneg_values (AList.update k v m)"
  by (induction m) (auto simp: nonneg_values_def)


lemma sum_sint_nonneg: "nonneg_resources rs \<Longrightarrow> 0 \<le> sum_list (map (\<lambda>r. sint (IntegerValue r)) rs)"
  by (induction rs) (simp_all add: nonneg_resources_def word_sle_eq)

lemma resource_total_nonneg: "nonneg_resources (relevant rs) \<Longrightarrow> 0 \<le> resource_total rs"
  unfolding resource_total_def by (rule sum_sint_nonneg)

lemma cells_record_instance:
  assumes "distinct [CPU cr, Memory cr, Registered cr, Remaining cr]"
  shows "cells (record_instance cr t c m reg rem h) (CPU cr) = AList.update t c (cells h (CPU cr))"
    and "cells (record_instance cr t c m reg rem h) (Memory cr) = AList.update t m (cells h (Memory cr))"
    and "cells (record_instance cr t c m reg rem h) (Registered cr) =
           AList.update t (map_index (cells h (Registered cr)) t + reg) (cells h (Registered cr))"
    and "cells (record_instance cr t c m reg rem h) (Remaining cr) =
           AList.update t (map_index (cells h (Remaining cr)) t + rem) (cells h (Remaining cr))"
  using assms by (auto simp: record_instance_def map_assign_def map_add_assign_def)


lemma record_all_nonneg:
  assumes d: "distinct [CPU cr, Memory cr, Registered cr, Remaining cr]"
    and pos: "0 <s cpu" "0 <s memory"
  shows "list_all (\<lambda>c. nonneg_resources (relevant (RegisteredResources c))
                  \<and> nonneg_resources (relevant (RemainingResources c))) cs \<Longrightarrow>
    nonneg_values (cells h (CPU cr)) \<Longrightarrow> nonneg_values (cells h (Memory cr)) \<Longrightarrow>
    nonneg_values (cells h (Registered cr)) \<Longrightarrow> nonneg_values (cells h (Remaining cr)) \<Longrightarrow>
    values_sum (cells h (Registered cr))
      + sum_list (map (\<lambda>c. resource_total (RegisteredResources c)) cs) < 2 ^ 63 \<Longrightarrow>
    values_sum (cells h (Remaining cr))
      + sum_list (map (\<lambda>c. resource_total (RemainingResources c)) cs) < 2 ^ 63 \<Longrightarrow>
    nonneg_values (cells (record_all cr cpu memory cs h) (CPU cr))
    \<and> nonneg_values (cells (record_all cr cpu memory cs h) (Memory cr))
    \<and> nonneg_values (cells (record_all cr cpu memory cs h) (Registered cr))
    \<and> nonneg_values (cells (record_all cr cpu memory cs h) (Remaining cr))"
proof (induction cs arbitrary: h)
  case Nil
  then show ?case by (simp add: record_all_def)
next
  case (Cons c cs)
  let ?t = "getInstanceType (Attributes c)"
  let ?reg = "capacity_count cpu memory (RegisteredResources c)"
  let ?rem = "capacity_count cpu memory (RemainingResources c)"
  let ?h1 = "record_instance cr ?t cpu memory ?reg ?rem h"
  let ?Sreg = "sum_list (map (\<lambda>c. resource_total (RegisteredResources c)) cs)"
  let ?Srem = "sum_list (map (\<lambda>c. resource_total (RemainingResources c)) cs)"
  have nnc: "nonneg_resources (relevant (RegisteredResources c))"
      "nonneg_resources (relevant (RemainingResources c))"
    and nncs: "list_all (\<lambda>c. nonneg_resources (relevant (RegisteredResources c))
                  \<and> nonneg_resources (relevant (RemainingResources c))) cs"
    using Cons.prems(1) by simp_all
  have Sreg0: "0 \<le> ?Sreg" and Srem0: "0 \<le> ?Srem"
    using nncs by (induction cs) (simp_all add: resource_total_nonneg)
  have vreg0: "0 \<le> values_sum (cells h (Registered cr))"
    and vrem0: "0 \<le> values_sum (cells h (Remaining cr))"
    using Cons.prems(4,5) by (simp_all add: values_sum_nonneg)
  have treg0: "0 \<le> resource_total (RegisteredResources c)"
    and trem0: "0 \<le> resource_total (RemainingResources c)"
    using nnc by (simp_all add: resource_total_nonneg)
  have breg: "values_sum (cells h (Registered cr)) + resource_total (RegisteredResources c) + ?Sreg < 2 ^ 63"
    and brem: "values_sum (cells h (Remaining cr)) + resource_total (RemainingResources c) + ?Srem < 2 ^ 63"
    using Cons.prems(6,7) by simp_all
  have treg: "resource_total (RegisteredResources c) < 2 ^ 63"
    using breg vreg0 Sreg0 by linarith
  have trem: "resource_total (RemainingResources c) < 2 ^ 63"
    using brem vrem0 Srem0 by linarith
  have reg: "0 \<le> sint ?reg" "sint ?reg \<le> resource_total (RegisteredResources c)"
    using capacity_count_bounds [OF nnc(1) pos treg] by simp_all
  have rem: "0 \<le> sint ?rem" "sint ?rem \<le> resource_total (RemainingResources c)"
    using capacity_count_bounds [OF nnc(2) pos trem] by simp_all
  have ureg: "nonneg_values (cells ?h1 (Registered cr))
      \<and> values_sum (cells ?h1 (Registered cr)) = values_sum (cells h (Registered cr)) + sint ?reg"
    unfolding cells_record_instance [OF d]
    using Cons.prems(4) reg breg Sreg0 by (intro update_add_values) linarith+
  have urem: "nonneg_values (cells ?h1 (Remaining cr))
      \<and> values_sum (cells ?h1 (Remaining cr)) = values_sum (cells h (Remaining cr)) + sint ?rem"
    unfolding cells_record_instance [OF d]
    using Cons.prems(5) rem brem Srem0 by (intro update_add_values) linarith+
  have ucpu: "nonneg_values (cells ?h1 (CPU cr))"
    unfolding cells_record_instance [OF d]
    using Cons.prems(2) pos(1) by (intro update_const_nonneg) (simp_all add: signed.less_imp_le)
  have umem: "nonneg_values (cells ?h1 (Memory cr))"
    unfolding cells_record_instance [OF d]
    using Cons.prems(3) pos(2) by (intro update_const_nonneg) (simp_all add: signed.less_imp_le)
  have b1: "values_sum (cells ?h1 (Registered cr)) + ?Sreg < 2 ^ 63"
    using ureg reg breg by linarith
  have b2: "values_sum (cells ?h1 (Remaining cr)) + ?Srem < 2 ^ 63"
    using urem rem brem by linarith
  have "record_all cr cpu memory (c # cs) h = record_all cr cpu memory cs ?h1"
    by (simp add: record_all_def)
  then show ?case
    using Cons.IH [OF nncs ucpu umem conjunct1 [OF ureg] conjunct1 [OF urem] b1 b2] by simp
qed


lemma ToMetricData_value_source:
  assumes "range_permutes ro" "d \<in> set (fst (ToMetricData ro clock n cr h))"
  shows "\<exists>x \<in> set (Resources cr). \<exists>y \<in> set (cells h (snd x)). Value d = snd y"
proof -
  have "set (fst (ToMetricData ro clock n cr h)) = set (fst (ToMetricData source_order clock n cr h))"
    using mset_ToMetricData [OF assms(1)] by (rule mset_eq_setD)
  then have "d \<in> set (fst (ToMetricData source_order clock n cr h))"
    using assms(2) by simp
  then obtain x y where x: "x \<in> set (Resources cr)" and y: "y \<in> set (cells h (snd x))"
      and d: "d = point (Cluster cr) (clock n) (fst x) (fst y) (snd y)"
    by (auto simp: ToMetricData_as_points source_order_def)
  have "Value d = snd y" by (simp add: d point_def)
  then show ?thesis using x y by blast
qed

lemma ToMetricData_unit:
  "d \<in> set (fst (ToMetricData ro clock n cr h)) \<Longrightarrow> Unit d = ''Count''"
  by (auto simp: ToMetricData_as_points point_def)

lemma nonneg_valuesD: "nonneg_values m \<Longrightarrow> y \<in> set m \<Longrightarrow> 0 \<le>s snd y"
  by (simp add: nonneg_values_def list_all_iff)

lemma MeasureCluster_values_nonneg:
  assumes ro: "range_permutes ro"
    and modest: "modest (DescribeContainerInstances sn cluster (ListContainerInstances sn cluster))"
    and ds: "fst (MeasureCluster sn ro clock n cluster) = Inr ds"
    and d: "d \<in> set ds"
  shows "0 \<le>s Value d"
proof (cases "fst (fst (task_footprint sn cluster)) = 0 \<or> snd (fst (task_footprint sn cluster)) = 0")
  case True
  then show ?thesis using ds d by (simp add: MeasureCluster_skips)
next
  case False
  let ?cpu = "fst (fst (task_footprint sn cluster))"
  let ?memory = "snd (fst (task_footprint sn cluster))"
  let ?cs = "DescribeContainerInstances sn cluster (ListContainerInstances sn cluster)"
  obtain cr h where new: "NewClusterResources cluster empty_heap = (cr, h)"
    by (cases "NewClusterResources cluster empty_heap")
  have nz: "?cpu \<noteq> 0" "?memory \<noteq> 0" using False by simp_all
  have pos: "0 <s ?cpu" "0 <s ?memory"
    using nz task_footprint_nonneg [of sn cluster] by (simp_all add: nonneg_nonzero_pos)
  have dist: "distinct [CPU cr, Memory cr, Registered cr, Remaining cr]"
    and empty: "cells h (CPU cr) = []" "cells h (Memory cr) = []"
      "cells h (Registered cr) = []" "cells h (Remaining cr) = []"
    and res: "snd ` set (Resources cr) = {CPU cr, Memory cr, Registered cr, Remaining cr}"
    using new by (auto simp: NewClusterResources_eq)
  let ?h' = "record_all cr ?cpu ?memory ?cs h"
  have good: "nonneg_values (cells ?h' (CPU cr)) \<and> nonneg_values (cells ?h' (Memory cr))
      \<and> nonneg_values (cells ?h' (Registered cr)) \<and> nonneg_values (cells ?h' (Remaining cr))"
    using modest
    by (intro record_all_nonneg [OF dist pos])
      (simp_all add: modest_def empty nonneg_values_def values_sum_def)
  have "ds = fst (ToMetricData ro clock n cr ?h')"
    using ds by (simp add: MeasureCluster_measures [OF nz] new)
  then obtain x y where x: "x \<in> set (Resources cr)" and y: "y \<in> set (cells ?h' (snd x))"
      and v: "Value d = snd y"
    using ToMetricData_value_source [OF ro, of d clock n cr ?h'] d by blast
  have "snd x \<in> {CPU cr, Memory cr, Registered cr, Remaining cr}"
    using x res by blast
  then have "nonneg_values (cells ?h' (snd x))"
    using good by auto
  then show ?thesis using y v by (simp add: nonneg_valuesD)
qed

lemma MeasureCluster_unit:
  assumes ds: "fst (MeasureCluster sn ro clock n cluster) = Inr ds" and d: "d \<in> set ds"
  shows "Unit d = ''Count''"
proof (cases "fst (fst (task_footprint sn cluster)) = 0 \<or> snd (fst (task_footprint sn cluster)) = 0")
  case True
  then show ?thesis using ds d by (simp add: MeasureCluster_skips)
next
  case False
  then have "\<exists>cr' h'. ds = fst (ToMetricData ro clock n cr' h')"
    using ds by (auto simp: MeasureCluster_measures)
  then show ?thesis using d by (auto simp: ToMetricData_unit)
qed


lemma negative_quotients: "go_quo (- 4096) 2560 = - 1"
  by (simp add: go_quo_def signed_divide_int_def)

lemma negative_measurement:
  "fst (MeasureCluster negative_ecs source_order clock n ''fake-ecs-cluster'') =
     Inr [point ''fake-ecs-cluster'' (clock n) ''LowestCommonMultipleCPU'' ''fake.2xlarge'' 2560,
          point ''fake-ecs-cluster'' (clock n) ''LowestCommonMultipleMemory'' ''fake.2xlarge'' 3072,
          point ''fake-ecs-cluster'' (clock n) ''RegisteredSchedulable'' ''fake.2xlarge'' 3,
          point ''fake-ecs-cluster'' (clock n) ''RemainingSchedulable'' ''fake.2xlarge'' (- 1)]"
proof -
  have f: "fst (task_footprint negative_ecs ''fake-ecs-cluster'') = (2560, 3072)"
    by (simp add: task_footprint_def DiscoverTasks_def negative_ecs_def fake_ecs_def MeasureResources_def
        fake_tasks_def Atoi_eval word_sless_alt)
  have c: "DescribeContainerInstances negative_ecs ''fake-ecs-cluster''
      (ListContainerInstances negative_ecs ''fake-ecs-cluster'') =
       [fake_instance\<lparr>RemainingResources :=
                  [\<lparr>Resource_Name = ''CPU'', IntegerValue = - 4096\<rparr>,
                   \<lparr>Resource_Name = ''MEMORY'', IntegerValue = 12396\<rparr>]\<rparr>]"
    by (simp add: DescribeContainerInstances_def negative_ecs_def fake_ecs_def)
  have t: "getInstanceType (Attributes fake_instance) = ''fake.2xlarge''"
    by (simp add: fake_instance_def)
  have r: "capacity_count 2560 3072
      [\<lparr>Resource_Name = ''CPU'', IntegerValue = - 4096\<rparr>,
       \<lparr>Resource_Name = ''MEMORY'', IntegerValue = 12396\<rparr>] = - 1"
    by (simp add: capacity_count_def capacity_by_def go_quo_fake negative_quotients go_min_def word_sle_eq)
  show ?thesis
    using MeasureCluster_measures [of negative_ecs "''fake-ecs-cluster''" source_order clock n]
    by (simp add: f c record_all_def fake_counts t r NewClusterResources_eq empty_heap_def
        record_instance_def map_assign_def map_add_assign_def map_index_def
        ToMetricData_as_points source_order_def)
qed

lemma overflow_measurement:
  "fst (MeasureCluster overflow_ecs source_order clock n ''fake-ecs-cluster'') =
     Inr [point ''fake-ecs-cluster'' (clock n) ''LowestCommonMultipleCPU'' ''fake.2xlarge'' 1,
          point ''fake-ecs-cluster'' (clock n) ''LowestCommonMultipleMemory'' ''fake.2xlarge'' 1,
          point ''fake-ecs-cluster'' (clock n) ''RegisteredSchedulable'' ''fake.2xlarge'' 9223372036854775808,
          point ''fake-ecs-cluster'' (clock n) ''RemainingSchedulable'' ''fake.2xlarge'' 11264]"
proof -
  have f: "fst (task_footprint overflow_ecs ''fake-ecs-cluster'') = (1, 1)"
    by (simp add: task_footprint_def DiscoverTasks_def overflow_ecs_def fake_ecs_def MeasureResources_def
        Atoi_eval word_sless_alt)
  have c: "DescribeContainerInstances overflow_ecs ''fake-ecs-cluster''
      (ListContainerInstances overflow_ecs ''fake-ecs-cluster'') =
       [fake_instance\<lparr>RegisteredResources :=
                    [\<lparr>Resource_Name = ''CPU'', IntegerValue = 4611686018427387904\<rparr>,
                     \<lparr>Resource_Name = ''MEMORY'', IntegerValue = 4611686018427387904\<rparr>]\<rparr>,
        fake_instance\<lparr>RegisteredResources :=
                    [\<lparr>Resource_Name = ''CPU'', IntegerValue = 4611686018427387904\<rparr>,
                     \<lparr>Resource_Name = ''MEMORY'', IntegerValue = 4611686018427387904\<rparr>]\<rparr>]"
    by (simp add: DescribeContainerInstances_def overflow_ecs_def fake_ecs_def)
  have t: "getInstanceType (Attributes fake_instance) = ''fake.2xlarge''"
    by (simp add: fake_instance_def)
  have q: "go_quo 4611686018427387904 1 = 4611686018427387904" "go_quo 5632 1 = 5632" "go_quo 12396 1 = 12396"
    by (simp_all add: go_quo_def signed_divide_int_def)
  have r: "capacity_count 1 1
      [\<lparr>Resource_Name = ''CPU'', IntegerValue = 4611686018427387904\<rparr>,
       \<lparr>Resource_Name = ''MEMORY'', IntegerValue = 4611686018427387904\<rparr>] = 4611686018427387904"
    by (simp add: capacity_count_def capacity_by_def q go_min_def word_sle_eq)
  have r2: "capacity_count 1 1 (RemainingResources fake_instance) = 5632"
    by (simp add: capacity_count_def capacity_by_def fake_instance_def q go_min_def word_sle_eq)
  show ?thesis
    using MeasureCluster_measures [of overflow_ecs "''fake-ecs-cluster''" source_order clock n]
    by (simp add: f c record_all_def t r r2 NewClusterResources_eq empty_heap_def
        record_instance_def map_assign_def map_add_assign_def map_index_def
        ToMetricData_as_points source_order_def)
qed

lemma modest_fake: "modest [fake_instance, fake_instance, fake_instance]"
  by (simp add: modest_def fake_instance_def nonneg_resources_def relevant_def resource_total_def word_sle_eq)


lemma wrapped_negative: "\<not> 0 \<le>s (9223372036854775808 :: go_int)" "\<not> 0 \<le>s (- 1 :: go_int)"
  by (simp_all add: word_sle_eq)


text \<open>
  Claim C9, as stated, covers every input of the provider. A negative resource value
  gives a negative count (Go's division truncates towards zero and nothing clamps the
  result), and counts that are each in range can add up beyond the range of \<^verbatim>\<open>int\<close>
  and wrap to a negative value.
\<close>

theorem metric_point_negative_value:
  "fst (MeasureCluster negative_ecs source_order epoch_clock 0 ''fake-ecs-cluster'') =
     Inr [point ''fake-ecs-cluster'' (epoch_clock 0) ''LowestCommonMultipleCPU'' ''fake.2xlarge'' 2560,
          point ''fake-ecs-cluster'' (epoch_clock 0) ''LowestCommonMultipleMemory'' ''fake.2xlarge'' 3072,
          point ''fake-ecs-cluster'' (epoch_clock 0) ''RegisteredSchedulable'' ''fake.2xlarge'' 3,
          point ''fake-ecs-cluster'' (epoch_clock 0) ''RemainingSchedulable'' ''fake.2xlarge'' (- 1)]
   \<and> \<not> 0 \<le>s Value (point ''fake-ecs-cluster'' (epoch_clock 0) ''RemainingSchedulable'' ''fake.2xlarge'' (- 1))
   \<and> fst (MeasureCluster overflow_ecs source_order epoch_clock 0 ''fake-ecs-cluster'') =
     Inr [point ''fake-ecs-cluster'' (epoch_clock 0) ''LowestCommonMultipleCPU'' ''fake.2xlarge'' 1,
          point ''fake-ecs-cluster'' (epoch_clock 0) ''LowestCommonMultipleMemory'' ''fake.2xlarge'' 1,
          point ''fake-ecs-cluster'' (epoch_clock 0) ''RegisteredSchedulable'' ''fake.2xlarge''
            9223372036854775808,
          point ''fake-ecs-cluster'' (epoch_clock 0) ''RemainingSchedulable'' ''fake.2xlarge'' 11264]
   \<and> \<not> 0 \<le>s Value (point ''fake-ecs-cluster'' (epoch_clock 0) ''RegisteredSchedulable'' ''fake.2xlarge''
            9223372036854775808)"
  using negative_measurement [of epoch_clock 0] overflow_measurement [of epoch_clock 0] wrapped_negative
  by (simp add: point_def)

text \<open>
  Claim C9, amended: every metric point that the measurement of a cluster returns has the
  unit \<^verbatim>\<open>Count\<close>; its value is a non-negative integer provided that no CPU or MEMORY
  value of the described container instances is negative and that the total of these
  values over the registered vectors, and over the remaining vectors, stays below
  \<open>2^63\<close> (\<open>modest\<close>), for every answer of the provider about tasks.
\<close>

theorem metric_points_nonneg_counts:
  "fst (MeasureCluster sn ro clock n cluster) = Inr ds \<longrightarrow>
     (\<forall>d \<in> set ds. Unit d = ''Count'')
     \<and> (range_permutes ro
          \<and> modest (DescribeContainerInstances sn cluster (ListContainerInstances sn cluster)) \<longrightarrow>
        (\<forall>d \<in> set ds. 0 \<le>s Value d))"
  using MeasureCluster_unit [of sn ro clock n cluster ds]
    MeasureCluster_values_nonneg [of ro sn cluster clock n ds]
  by blast

theorem metric_points_nonneg_counts_witness:
  "fst (MeasureCluster fake_ecs source_order epoch_clock 0 ''fake-ecs-cluster'') =
     Inr [point ''fake-ecs-cluster'' (epoch_clock 0) ''LowestCommonMultipleCPU'' ''fake.2xlarge'' 2560,
          point ''fake-ecs-cluster'' (epoch_clock 0) ''LowestCommonMultipleMemory'' ''fake.2xlarge'' 3072,
          point ''fake-ecs-cluster'' (epoch_clock 0) ''RegisteredSchedulable'' ''fake.2xlarge'' 9,
          point ''fake-ecs-cluster'' (epoch_clock 0) ''RemainingSchedulable'' ''fake.2xlarge'' 6]
   \<and> range_permutes source_order
   \<and> modest (DescribeContainerInstances fake_ecs ''fake-ecs-cluster''
        (ListContainerInstances fake_ecs ''fake-ecs-cluster''))
   \<and> Unit (point ''fake-ecs-cluster'' (epoch_clock 0) ''RemainingSchedulable'' ''fake.2xlarge'' 6) = ''Count''
   \<and> 0 \<le>s Value (point ''fake-ecs-cluster'' (epoch_clock 0) ''RemainingSchedulable'' ''fake.2xlarge'' 6)
   \<and> 0 \<le>s Value (point ''fake-ecs-cluster'' (epoch_clock 0) ''RegisteredSchedulable'' ''fake.2xlarge'' 9)"
proof -
  let ?ds = "[point ''fake-ecs-cluster'' (epoch_clock 0) ''LowestCommonMultipleCPU'' ''fake.2xlarge'' 2560,
          point ''fake-ecs-cluster'' (epoch_clock 0) ''LowestCommonMultipleMemory'' ''fake.2xlarge'' 3072,
          point ''fake-ecs-cluster'' (epoch_clock 0) ''RegisteredSchedulable'' ''fake.2xlarge'' 9,
          point ''fake-ecs-cluster'' (epoch_clock 0) ''RemainingSchedulable'' ''fake.2xlarge'' 6]"
  have e: "fst (MeasureCluster fake_ecs source_order epoch_clock 0 ''fake-ecs-cluster'') = Inr ?ds"
    by (rule fake_measurement)
  have m: "modest (DescribeContainerInstances fake_ecs ''fake-ecs-cluster''
        (ListContainerInstances fake_ecs ''fake-ecs-cluster''))"
    by (simp only: fake_containers modest_fake)
  have "(\<forall>d \<in> set ?ds. Unit d = ''Count'') \<and> (\<forall>d \<in> set ?ds. 0 \<le>s Value d)"
    using metric_points_nonneg_counts [of fake_ecs source_order epoch_clock 0 "''fake-ecs-cluster''" ?ds]
      e m range_permutes_source_order
    by blast
  then show ?thesis
    using e m range_permutes_source_order by simp
qed

section \<open>Publishing in batches\<close>

declare Publish_loop.simps [simp del] chunks.simps [simp del]

lemma chunks_Nil [simp]: "chunks n [] = []"
  by (simp add: chunks.simps)

lemma chunks_step: "0 < n \<Longrightarrow> xs \<noteq> [] \<Longrightarrow> chunks n xs = take n xs # chunks n (drop n xs)"
  by (subst chunks.simps) simp

lemma concat_chunks: "0 < n \<Longrightarrow> concat (chunks n xs) = xs"
proof (induction n xs rule: chunks.induct)
  case (1 n xs)
  then show ?case by (cases "xs = []") (simp_all add: chunks_step)
qed

lemma chunks_lengths:
  "0 < n \<Longrightarrow> b \<in> set (chunks n xs) \<Longrightarrow> 0 < length b \<and> length b \<le> n"
proof (induction n xs rule: chunks.induct)
  case (1 n xs)
  then show ?case by (cases "xs = []") (auto simp: chunks_step)
qed

lemma chunks_full:
  "0 < n \<Longrightarrow> b \<in> set (butlast (chunks n xs)) \<Longrightarrow> length b = n"
proof (induction n xs rule: chunks.induct)
  case (1 n xs)
  show ?case
  proof (cases "xs = []")
    case True
    then show ?thesis using "1.prems" by simp
  next
    case False
    show ?thesis
    proof (cases "drop n xs = []")
      case True
      then show ?thesis using "1.prems" False by (simp add: chunks_step)
    next
      case d: False
      then have "chunks n (drop n xs) \<noteq> []"
        using "1.prems"(1) by (simp add: chunks_step)
      then have "b = take n xs \<or> b \<in> set (butlast (chunks n (drop n xs)))"
        using "1.prems" False by (simp add: chunks_step)
      moreover have "length (take n xs) = n" using d by simp
      ultimately show ?thesis using "1.IH" "1.prems"(1) False by auto
    qed
  qed
qed

lemma Publish_loop_batches:
  "batches_of (Publish_loop validate put ns md i log) = batches_of log @ chunks batchSize (drop i md)"
proof (induction validate put ns md i log rule: Publish_loop.induct)
  case (1 validate put ns md i log)
  show ?case
  proof (cases "i < length md")
    case False
    then show ?thesis by (subst Publish_loop.simps) simp
  next
    case True
    let ?end = "if i + batchSize > length md then length md else i + batchSize"
    let ?input = "\<lparr>Namespace = ns, MetricData = take (?end - i) (drop i md)\<rparr>"
    have b: "take (?end - i) (drop i md) = take batchSize (drop i md)"
      by simp
    have c: "chunks batchSize (drop i md) = take batchSize (drop i md) # chunks batchSize (drop (i + batchSize) md)"
      using True by (subst chunks_step) (simp_all add: batchSize_def add.commute)
    show ?thesis
      using True "1.IH" [OF True refl refl]
      by (subst Publish_loop.simps) (simp add: Let_def b c batches_of_def del: take_all_iff)
  qed
qed


lemma chunks_45:
  assumes "length xs = 45"
  shows "map length (chunks 20 xs) = [20, 20, 5]"
proof -
  have a: "xs \<noteq> []" using assms by auto
  have b: "drop 20 xs \<noteq> []" using assms by simp
  have c: "drop 20 (drop 20 xs) \<noteq> []" using assms by simp
  have d: "drop 20 (drop 20 (drop 20 xs)) = []" using assms by simp
  have "chunks 20 xs =
      [take 20 xs, take 20 (drop 20 xs), take 20 (drop 20 (drop 20 xs))]"
    by (simp only: chunks_step [OF _ a] chunks_step [OF _ b] chunks_step [OF _ c] d chunks_Nil
        zero_less_numeral)
  then show ?thesis using assms by simp
qed

lemma Publish_loop_verdicts:
  "\<forall>e \<in> set log. Namespace (event_input e) = ns \<and> is_invalid e = (\<not> validate (event_input e)) \<Longrightarrow>
   \<forall>e \<in> set (Publish_loop validate put ns md i log).
     Namespace (event_input e) = ns \<and> is_invalid e = (\<not> validate (event_input e))"
proof (induction validate put ns md i log rule: Publish_loop.induct)
  case (1 validate put ns md i log)
  show ?case
  proof (cases "i < length md")
    case False
    then show ?thesis using "1.prems" by (subst Publish_loop.simps) simp
  next
    case True
    let ?end = "if i + batchSize > length md then length md else i + batchSize"
    let ?input = "\<lparr>Namespace = ns, MetricData = take (?end - i) (drop i md)\<rparr>"
    consider (invalid) "\<not> validate ?input"
      | (failed) "validate ?input" "\<not> put (submitted log) ?input"
      | (published) "validate ?input" "put (submitted log) ?input"
      by blast
    then show ?thesis
    proof cases
      case invalid
      have "\<forall>e \<in> set (Publish_loop validate put ns md (i + batchSize) (log @ [Invalid ?input])).
          Namespace (event_input e) = ns \<and> is_invalid e = (\<not> validate (event_input e))"
        using "1.prems" invalid by (intro "1.IH"(1) [OF True refl refl]) auto
      then show ?thesis using True invalid by (subst Publish_loop.simps) (simp add: Let_def)
    next
      case failed
      have "\<forall>e \<in> set (Publish_loop validate put ns md (i + batchSize) (log @ [NotPublished ?input])).
          Namespace (event_input e) = ns \<and> is_invalid e = (\<not> validate (event_input e))"
        using "1.prems" failed by (intro "1.IH"(2) [OF True refl refl]) auto
      then show ?thesis using True failed by (subst Publish_loop.simps) (simp add: Let_def)
    next
      case published
      have "\<forall>e \<in> set (Publish_loop validate put ns md (i + batchSize) (log @ [Published ?input])).
          Namespace (event_input e) = ns \<and> is_invalid e = (\<not> validate (event_input e))"
        using "1.prems" published by (intro "1.IH"(3) [OF True refl refl]) auto
      then show ?thesis using True published by (subst Publish_loop.simps) (simp add: Let_def)
    qed
  qed
qed

lemma submitted_valid:
  "\<forall>e \<in> set log. is_invalid e = (\<not> validate (event_input e)) \<Longrightarrow>
   submitted log = filter validate (map event_input log)"
proof (induction log)
  case Nil
  then show ?case by simp
next
  case (Cons e log)
  then show ?case by (cases e) simp_all
qed


lemma submitted_append: "submitted (xs @ ys) = submitted xs @ submitted ys"
  by (induction xs rule: submitted.induct) simp_all

lemma Publish_loop_log:
  "Publish_loop validate put ns md i log =
     log @ publish_log validate put ns (submitted log) (chunks batchSize (drop i md))"
proof (induction validate put ns md i log rule: Publish_loop.induct)
  case (1 validate put ns md i log)
  show ?case
  proof (cases "i < length md")
    case False
    then show ?thesis by (subst Publish_loop.simps) simp
  next
    case True
    let ?end = "if i + batchSize > length md then length md else i + batchSize"
    let ?input = "\<lparr>Namespace = ns, MetricData = take batchSize (drop i md)\<rparr>"
    have b: "take (?end - i) (drop i md) = take batchSize (drop i md)"
      by simp
    have c: "chunks batchSize (drop i md) =
        take batchSize (drop i md) # chunks batchSize (drop (i + batchSize) md)"
      using True by (subst chunks_step) (simp_all add: batchSize_def add.commute)
    consider (invalid) "\<not> validate ?input"
      | (failed) "validate ?input" "\<not> put (submitted log) ?input"
      | (published) "validate ?input" "put (submitted log) ?input"
      by blast
    then show ?thesis
    proof cases
      case invalid
      then show ?thesis
        using True "1.IH"(1) [OF True refl refl]
        by (subst Publish_loop.simps)
          (simp add: Let_def b c outcome_def submitted_append del: take_all_iff)
    next
      case failed
      then show ?thesis
        using True "1.IH"(2) [OF True refl refl]
        by (subst Publish_loop.simps)
          (simp add: Let_def b c outcome_def submitted_append del: take_all_iff)
    next
      case published
      then show ?thesis
        using True "1.IH"(3) [OF True refl refl]
        by (subst Publish_loop.simps)
          (simp add: Let_def b c outcome_def submitted_append del: take_all_iff)
    qed
  qed
qed

lemma Publish_log: "Publish validate put ns md = publish_log validate put ns [] (chunks 20 md)"
  using Publish_loop_log [of validate put ns md 0 "[]"] by (simp add: Publish_def batchSize_def)

lemma length_publish_log: "length (publish_log validate put ns history bs) = length bs"
  by (induction bs arbitrary: history) simp_all

lemma publish_log_nth:
  "k < length bs \<Longrightarrow>
   publish_log validate put ns history bs ! k =
     outcome validate put (history @ submitted (take k (publish_log validate put ns history bs)))
       \<lparr>Namespace = ns, MetricData = bs ! k\<rparr>"
proof (induction bs arbitrary: history k)
  case Nil
  then show ?case by simp
next
  case (Cons b bs)
  show ?case
  proof (cases k)
    case 0
    then show ?thesis by simp
  next
    case (Suc j)
    let ?e = "outcome validate put history \<lparr>Namespace = ns, MetricData = b\<rparr>"
    let ?rest = "publish_log validate put ns (history @ submitted [?e]) bs"
    have j: "j < length bs" using Cons.prems Suc by simp
    have s: "submitted (?e # take j ?rest) = submitted [?e] @ submitted (take j ?rest)"
      using submitted_append [of "[?e]" "take j ?rest"] by simp
    have "publish_log validate put ns history (b # bs) ! k = ?rest ! j"
      using Suc by simp
    also have "\<dots> = outcome validate put ((history @ submitted [?e]) @ submitted (take j ?rest))
        \<lparr>Namespace = ns, MetricData = bs ! j\<rparr>"
      using j by (rule Cons.IH)
    also have "\<dots> = outcome validate put
        (history @ submitted (take k (publish_log validate put ns history (b # bs))))
        \<lparr>Namespace = ns, MetricData = (b # bs) ! k\<rparr>"
      using Suc by (simp add: s)
    finally show ?thesis .
  qed
qed


lemma chunks_45_list:
  assumes "length xs = 45"
  shows "chunks 20 xs = [take 20 xs, take 20 (drop 20 xs), take 20 (drop 20 (drop 20 xs))]"
proof -
  have a: "xs \<noteq> []" using assms by auto
  have b: "drop 20 xs \<noteq> []" using assms by simp
  have c: "drop 20 (drop 20 xs) \<noteq> []" using assms by simp
  have d: "drop 20 (drop 20 (drop 20 xs)) = []" using assms by simp
  show ?thesis
    by (simp only: chunks_step [OF _ a] chunks_step [OF _ b] chunks_step [OF _ c] d chunks_Nil
        zero_less_numeral)
qed

text \<open>
  Claim C5: for every list of metric points, \<^verbatim>\<open>Publish\<close> goes through the consecutive
  batches of at most 20 points, in the original order; they make up the list, none is
  empty, and all but the last hold exactly 20 points. 45 points make three batches of
  20, 20 and 5 points. Every batch is validated on its own, with the namespace. An
  invalid batch is not submitted; a valid batch is submitted to the backend, after the
  submissions made before it, and is logged as published or as failed as the backend
  answers. Whatever validation and the backend answered for the batches before, the
  next batch is taken in the same way.
\<close>

theorem Publish_batches:
  "batches_of (Publish validate put ns md) = chunks 20 md
   \<and> concat (batches_of (Publish validate put ns md)) = md
   \<and> (\<forall>b \<in> set (batches_of (Publish validate put ns md)). 0 < length b \<and> length b \<le> 20)
   \<and> (\<forall>b \<in> set (butlast (batches_of (Publish validate put ns md))). length b = 20)
   \<and> (length md = 45 \<longrightarrow> map length (batches_of (Publish validate put ns md)) = [20, 20, 5])
   \<and> (\<forall>e \<in> set (Publish validate put ns md).
        Namespace (event_input e) = ns \<and> is_invalid e = (\<not> validate (event_input e)))
   \<and> submitted (Publish validate put ns md) =
        filter validate (map event_input (Publish validate put ns md))
   \<and> Publish validate put ns md = publish_log validate put ns [] (chunks 20 md)
   \<and> length (Publish validate put ns md) = length (chunks 20 md)
   \<and> (\<forall>k < length (chunks 20 md).
        Publish validate put ns md ! k =
          outcome validate put (submitted (take k (Publish validate put ns md)))
            \<lparr>Namespace = ns, MetricData = chunks 20 md ! k\<rparr>)"
proof -
  have b: "batches_of (Publish validate put ns md) = chunks 20 md"
    using Publish_loop_batches [of validate put ns md 0 "[]"]
    by (simp add: Publish_def batches_of_def batchSize_def)
  have v: "\<forall>e \<in> set (Publish validate put ns md).
      Namespace (event_input e) = ns \<and> is_invalid e = (\<not> validate (event_input e))"
    unfolding Publish_def by (rule Publish_loop_verdicts) simp
  have s: "submitted (Publish validate put ns md) =
      filter validate (map event_input (Publish validate put ns md))"
    using v by (intro submitted_valid) blast
  have c: "concat (batches_of (Publish validate put ns md)) = md"
    by (simp add: b concat_chunks)
  have l: "\<forall>b \<in> set (batches_of (Publish validate put ns md)). 0 < length b \<and> length b \<le> 20"
    unfolding b using chunks_lengths [of 20 _ md] by simp
  have f: "\<forall>b \<in> set (butlast (batches_of (Publish validate put ns md))). length b = 20"
    unfolding b using chunks_full [of 20 _ md] by simp
  have e: "length md = 45 \<longrightarrow> map length (batches_of (Publish validate put ns md)) = [20, 20, 5]"
    unfolding b by (simp add: chunks_45)
  have p: "Publish validate put ns md = publish_log validate put ns [] (chunks 20 md)"
    by (rule Publish_log)
  have n: "length (Publish validate put ns md) = length (chunks 20 md)"
    by (simp add: p length_publish_log)
  have k: "\<forall>k < length (chunks 20 md).
        Publish validate put ns md ! k =
          outcome validate put (submitted (take k (Publish validate put ns md)))
            \<lparr>Namespace = ns, MetricData = chunks 20 md ! k\<rparr>"
    unfolding p using publish_log_nth [of _ "chunks 20 md" validate put ns "[]"] by simp
  from b c l f e v s p n k show ?thesis by (intro conjI)
qed

theorem Publish_batches_witness:
  "length (sample_points 45) = 45
   \<and> map length (batches_of (Publish namespace_required failing_backend (Some ''Publish/Error'')
        (sample_points 45))) = [20, 20, 5]
   \<and> concat (batches_of (Publish namespace_required failing_backend None (sample_points 45))) =
        sample_points 45
   \<and> Publish namespace_required first_fails (Some ''Publish/Error'') (sample_points 45) =
       [NotPublished \<lparr>Namespace = Some ''Publish/Error'', MetricData = take 20 (sample_points 45)\<rparr>,
        Published \<lparr>Namespace = Some ''Publish/Error'',
                    MetricData = take 20 (drop 20 (sample_points 45))\<rparr>,
        Published \<lparr>Namespace = Some ''Publish/Error'',
                    MetricData = take 20 (drop 20 (drop 20 (sample_points 45)))\<rparr>]
   \<and> Publish namespace_required failing_backend (Some ''Publish/Error'') (sample_points 45) =
       [NotPublished \<lparr>Namespace = Some ''Publish/Error'', MetricData = take 20 (sample_points 45)\<rparr>,
        NotPublished \<lparr>Namespace = Some ''Publish/Error'',
                       MetricData = take 20 (drop 20 (sample_points 45))\<rparr>,
        NotPublished \<lparr>Namespace = Some ''Publish/Error'',
                       MetricData = take 20 (drop 20 (drop 20 (sample_points 45)))\<rparr>]
   \<and> Publish namespace_required first_fails None (sample_points 45) =
       [Invalid \<lparr>Namespace = None, MetricData = take 20 (sample_points 45)\<rparr>,
        Invalid \<lparr>Namespace = None, MetricData = take 20 (drop 20 (sample_points 45))\<rparr>,
        Invalid \<lparr>Namespace = None, MetricData = take 20 (drop 20 (drop 20 (sample_points 45)))\<rparr>]"
proof -
  have l: "length (sample_points 45) = 45"
    by (simp add: sample_points_def)
  note c = chunks_45_list [OF l]
  note w1 = Publish_batches [of namespace_required failing_backend "Some ''Publish/Error''" "sample_points 45"]
  note w2 = Publish_batches [of namespace_required failing_backend None "sample_points 45"]
  note w3 = Publish_batches [of namespace_required first_fails "Some ''Publish/Error''" "sample_points 45"]
  note w4 = Publish_batches [of namespace_required first_fails None "sample_points 45"]
  have a: "map length (batches_of (Publish namespace_required failing_backend (Some ''Publish/Error'')
        (sample_points 45))) = [20, 20, 5]"
    using w1 l by blast
  have b: "concat (batches_of (Publish namespace_required failing_backend None (sample_points 45))) =
        sample_points 45"
    using w2 by blast
  have p1: "Publish namespace_required failing_backend (Some ''Publish/Error'') (sample_points 45) =
       [NotPublished \<lparr>Namespace = Some ''Publish/Error'', MetricData = take 20 (sample_points 45)\<rparr>,
        NotPublished \<lparr>Namespace = Some ''Publish/Error'',
                       MetricData = take 20 (drop 20 (sample_points 45))\<rparr>,
        NotPublished \<lparr>Namespace = Some ''Publish/Error'',
                       MetricData = take 20 (drop 20 (drop 20 (sample_points 45)))\<rparr>]"
    unfolding w1 [THEN conjunct2, THEN conjunct2, THEN conjunct2, THEN conjunct2, THEN conjunct2,
        THEN conjunct2, THEN conjunct2, THEN conjunct1] c
    by (simp add: outcome_def namespace_required_def failing_backend_def)
  have p3: "Publish namespace_required first_fails (Some ''Publish/Error'') (sample_points 45) =
       [NotPublished \<lparr>Namespace = Some ''Publish/Error'', MetricData = take 20 (sample_points 45)\<rparr>,
        Published \<lparr>Namespace = Some ''Publish/Error'',
                    MetricData = take 20 (drop 20 (sample_points 45))\<rparr>,
        Published \<lparr>Namespace = Some ''Publish/Error'',
                    MetricData = take 20 (drop 20 (drop 20 (sample_points 45)))\<rparr>]"
    unfolding w3 [THEN conjunct2, THEN conjunct2, THEN conjunct2, THEN conjunct2, THEN conjunct2,
        THEN conjunct2, THEN conjunct2, THEN conjunct1] c
    by (simp add: outcome_def namespace_required_def first_fails_def)
  have p4: "Publish namespace_required first_fails None (sample_points 45) =
       [Invalid \<lparr>Namespace = None, MetricData = take 20 (sample_points 45)\<rparr>,
        Invalid \<lparr>Namespace = None, MetricData = take 20 (drop 20 (sample_points 45))\<rparr>,
        Invalid \<lparr>Namespace = None, MetricData = take 20 (drop 20 (drop 20 (sample_points 45)))\<rparr>]"
    unfolding w4 [THEN conjunct2, THEN conjunct2, THEN conjunct2, THEN conjunct2, THEN conjunct2,
        THEN conjunct2, THEN conjunct2, THEN conjunct1] c
    by (simp add: outcome_def namespace_required_def first_fails_def)
  from l a b p3 p1 p4 show ?thesis by (intro conjI)
qed

section \<open>Deriving cluster names\<close>

lemma Split_from_no_separator:
  "\<not> Contains s sep \<Longrightarrow> Split_from sep part s = [part @ s]"
  by (induction s arbitrary: part) simp_all

lemma Split_from_at_separator:
  "sep \<noteq> [] \<Longrightarrow> Split_from sep part (sep @ rest) = part # Split_from sep [] rest"
proof -
  assume "sep \<noteq> []"
  then obtain c cs where sep: "sep = c # cs" by (cases sep) auto
  show ?thesis by (simp add: sep)
qed

lemma prefix_before_colon:
  assumes "CHR '':'' \<notin> set ys" "prefix ys (p @ CHR '':'' # zs)"
  shows "prefix ys p"
proof -
  from assms(2) have "prefix ys p \<or> (\<exists>us. ys = p @ us \<and> prefix us (CHR '':'' # zs))"
    by (simp add: prefix_append)
  then show ?thesis
  proof
    assume "prefix ys p"
    then show ?thesis .
  next
    assume "\<exists>us. ys = p @ us \<and> prefix us (CHR '':'' # zs)"
    then obtain us where ys: "ys = p @ us" and us: "prefix us (CHR '':'' # zs)"
      by blast
    show ?thesis
    proof (cases us)
      case Nil
      then show ?thesis using ys by simp
    next
      case (Cons u us')
      then have "u = CHR '':''" using us by simp
      then have "CHR '':'' \<in> set ys" using ys Cons by simp
      then show ?thesis using assms(1) by simp
    qed
  qed
qed

lemma Split_from_before_separator:
  "\<not> Contains p '':cluster/'' \<Longrightarrow>
   Split_from '':cluster/'' part (p @ '':cluster/'' @ rest) =
     Split_from '':cluster/'' (part @ p) ('':cluster/'' @ rest)"
proof (induction p arbitrary: part)
  case Nil
  then show ?case by simp
next
  case (Cons c p)
  have no: "\<not> prefix '':cluster/'' (c # p)" and rest: "\<not> Contains p '':cluster/''"
    using Cons.prems by simp_all
  have "\<not> prefix '':cluster/'' (c # p @ '':cluster/'' @ rest)"
  proof
    assume pre: "prefix '':cluster/'' (c # p @ '':cluster/'' @ rest)"
    then have c: "c = CHR '':''" and tail: "prefix ''cluster/'' (p @ CHR '':'' # ''cluster/'' @ rest)"
      by auto
    have "prefix ''cluster/'' p"
      using tail by (rule prefix_before_colon [rotated]) simp
    then have "prefix '':cluster/'' (c # p)" using c by simp
    then show False using no by simp
  qed
  then show ?case using Cons.IH [OF rest, of "part @ [c]"] by simp
qed

lemma Split_cluster_arn:
  assumes "\<not> Contains p '':cluster/''" "\<not> Contains name '':cluster/''"
  shows "Split (p @ '':cluster/'' @ name) '':cluster/'' = [p, name]"
proof -
  have "Split_from '':cluster/'' [] (p @ '':cluster/'' @ name) =
      Split_from '':cluster/'' p ('':cluster/'' @ name)"
    using Split_from_before_separator [OF assms(1), of "[]" name] by simp
  also have "\<dots> = p # Split_from '':cluster/'' [] name"
    by (rule Split_from_at_separator) simp
  also have "\<dots> = [p, name]"
    using Split_from_no_separator [OF assms(2), of "[]"] by simp
  finally show ?thesis by (simp add: Split_def)
qed


lemma cluster_name_of_arn:
  assumes "separator_once parts"
  shows "cluster_name (cluster_arn parts) = Inr (snd parts)"
proof -
  have "Split (cluster_arn parts) '':cluster/'' = [fst parts, snd parts]"
    unfolding cluster_arn_def
    using assms by (intro Split_cluster_arn) (simp_all add: separator_once_def)
  then show ?thesis by (simp add: cluster_name_def)
qed

lemma DiscoverClusters_page_names:
  "list_all separator_once page \<Longrightarrow>
   DiscoverClusters_page (map cluster_arn page) = (map snd page, None)"
  by (induction page) (simp_all add: cluster_name_of_arn)

lemma DiscoverClusters_pages_names:
  "list_all (list_all separator_once) pages \<Longrightarrow>
   DiscoverClusters_pages (map (map cluster_arn) pages) = (map snd (concat pages), None)"
  by (induction pages) (simp_all add: DiscoverClusters_page_names)

lemma pages_seen_map: "pages_seen (map (map f) pages) = map (map f) (pages_seen pages)"
  by (induction pages) simp_all

text \<open>
  Claim C7: for every cluster identifier of the form \<^verbatim>\<open>arn:...:cluster/<name>\<close> (the
  separator \<^verbatim>\<open>:cluster/\<close> occurring once) the name derived is \<^verbatim>\<open><name>\<close>, what stands
  before the separator being stripped; \<^verbatim>\<open>arn:aws:ecs:ca-central-1:123456789012:cluster/my-cluster\<close>
  gives \<^verbatim>\<open>my-cluster\<close>. When the identifiers received from the provider are of this
  form, the discovery stream emits their names in order, one for each identifier
  received, and does not panic.
\<close>

theorem DiscoverClusters_names:
  "(separator_once parts \<longrightarrow> cluster_name (cluster_arn parts) = Inr (snd parts))
   \<and> (fst (ECS_ListClustersPages sn) = map (map cluster_arn) pages
        \<and> list_all (list_all separator_once) (pages_seen pages) \<longrightarrow>
      DiscoverClusters sn = (map snd (concat (pages_seen pages)), None)
      \<and> length (fst (DiscoverClusters sn)) =
          length (concat (pages_seen (fst (ECS_ListClustersPages sn)))))
   \<and> cluster_name ''arn:aws:ecs:ca-central-1:123456789012:cluster/my-cluster'' = Inr ''my-cluster''"
proof (intro conjI impI)
  assume "separator_once parts"
  then show "cluster_name (cluster_arn parts) = Inr (snd parts)"
    by (rule cluster_name_of_arn)
next
  assume a: "fst (ECS_ListClustersPages sn) = map (map cluster_arn) pages
      \<and> list_all (list_all separator_once) (pages_seen pages)"
  then show d: "DiscoverClusters sn = (map snd (concat (pages_seen pages)), None)"
    by (simp add: DiscoverClusters_def pages_seen_map DiscoverClusters_pages_names)
  show "length (fst (DiscoverClusters sn)) =
      length (concat (pages_seen (fst (ECS_ListClustersPages sn))))"
    using a by (simp add: d pages_seen_map length_concat comp_def)
next
  have "separator_once (''arn:aws:ecs:ca-central-1:123456789012'', ''my-cluster'')"
    by (simp add: separator_once_def)
  then have "cluster_name (cluster_arn (''arn:aws:ecs:ca-central-1:123456789012'', ''my-cluster'')) =
      Inr ''my-cluster''"
    using cluster_name_of_arn by fastforce
  then show "cluster_name ''arn:aws:ecs:ca-central-1:123456789012:cluster/my-cluster'' = Inr ''my-cluster''"
    by (simp add: cluster_arn_def)
qed

theorem DiscoverClusters_names_witness:
  "fst (ECS_ListClustersPages fake_ecs) = map (map cluster_arn) fake_cluster_parts
   \<and> list_all (list_all separator_once) (pages_seen fake_cluster_parts)
   \<and> separator_once (''arn:aws:ecs:us-east-1:123456789012'', ''fake-ecs-cluster'')
   \<and> cluster_name ''arn:aws:ecs:us-east-1:123456789012:cluster/fake-ecs-cluster'' = Inr ''fake-ecs-cluster''
   \<and> DiscoverClusters fake_ecs =
       ([''fake-ecs-cluster'', ''another-fake-ecs-cluster'', ''who-even-uses-fargate''], None)"
proof -
  have p: "fst (ECS_ListClustersPages fake_ecs) = map (map cluster_arn) fake_cluster_parts"
    by (simp add: fake_ecs_def fake_cluster_parts_def cluster_arn_def)
  have w: "list_all (list_all separator_once) (pages_seen fake_cluster_parts)"
    by (simp add: fake_cluster_parts_def separator_once_def)
  have s: "separator_once (''arn:aws:ecs:us-east-1:123456789012'', ''fake-ecs-cluster'')"
    by (simp add: separator_once_def)
  have n: "cluster_name (cluster_arn (''arn:aws:ecs:us-east-1:123456789012'', ''fake-ecs-cluster'')) =
      Inr ''fake-ecs-cluster''"
    using DiscoverClusters_names [of "(''arn:aws:ecs:us-east-1:123456789012'', ''fake-ecs-cluster'')"] s
    by simp
  have d: "DiscoverClusters fake_ecs = (map snd (concat (pages_seen fake_cluster_parts)), None)"
    using DiscoverClusters_names [of _ fake_ecs fake_cluster_parts] p w by blast
  show ?thesis
    using p w s n d by (simp add: cluster_arn_def fake_cluster_parts_def)
qed

end
